theory Spec2Isabelle
  imports Main
begin

section \<open>JavaScript values\<close>

text \<open>
  The servers handle parsed JSON bodies and read them with property accesses guarded by
  \<^verbatim>\<open>&&\<close> and \<^verbatim>\<open>||\<close>, so the values are modelled with their truthiness.
  A string is a list of 8-bit code units (the Latin-1 range of JavaScript's code units);
  a number is an integer or \<open>NaN\<close>, which is what \<^verbatim>\<open>parseInt\<close> returns.
\<close>

datatype jsval =
    JUndefined
  | JNull
  | JBool bool
  | JNum int
  | JNaN
  | JStr string
  | JArr "jsval list"
  | JObj "(string \<times> jsval) list"

fun truthy :: "jsval \<Rightarrow> bool" where
  "truthy JUndefined = False"
| "truthy JNull = False"
| "truthy (JBool b) = b"
| "truthy (JNum n) = (n \<noteq> 0)"
| "truthy JNaN = False"
| "truthy (JStr s) = (s \<noteq> [])"
| "truthy (JArr xs) = True"
| "truthy (JObj kvs) = True"

text \<open>\<^verbatim>\<open>a || b\<close> and \<^verbatim>\<open>a && b\<close> return one of their operands.\<close>

definition js_or :: "jsval \<Rightarrow> jsval \<Rightarrow> jsval" where
  "js_or a b = (if truthy a then a else b)"

definition js_and :: "jsval \<Rightarrow> jsval \<Rightarrow> jsval" where
  "js_and a b = (if truthy a then b else a)"

fun nullish :: "jsval \<Rightarrow> bool" where
  "nullish JUndefined = True"
| "nullish JNull = True"
| "nullish v = False"

text \<open>
  \<^verbatim>\<open>x.k\<close> for a value \<open>x\<close> that is neither \<open>null\<close> nor \<open>undefined\<close> (on those the
  access throws a TypeError, which every caller below writes out). A parsed object keeps
  the last of two equal keys. None of the keys the servers read is a property of the
  string, array, number or boolean prototypes, so the access yields \<open>undefined\<close> there.
\<close>

fun js_get :: "jsval \<Rightarrow> string \<Rightarrow> jsval" where
  "js_get (JObj kvs) k = (case map_of (rev kvs) k of Some v \<Rightarrow> v | None \<Rightarrow> JUndefined)"
| "js_get v k = JUndefined"

text \<open>\<^verbatim>\<open>x[0]\<close>: the first element of an array, the first character of a string,
  the property \<^verbatim>\<open>"0"\<close> of an object.\<close>

fun index0 :: "jsval \<Rightarrow> jsval" where
  "index0 (JArr []) = JUndefined"
| "index0 (JArr (v # vs)) = v"
| "index0 (JStr []) = JUndefined"
| "index0 (JStr (c # cs)) = JStr [c]"
| "index0 (JObj kvs) = js_get (JObj kvs) ''0''"
| "index0 v = JUndefined"

text \<open>A number produced by \<^verbatim>\<open>parseInt\<close>: \<open>None\<close> is \<open>NaN\<close>.\<close>

type_synonym jsnum = "int option"

fun num :: "jsnum \<Rightarrow> jsval" where
  "num None = JNaN"
| "num (Some n) = JNum n"

subsection \<open>Strings\<close>

text \<open>The white space and line terminators that \<^verbatim>\<open>String.prototype.trim\<close> removes,
  among the code units below 256: TAB, LF, VT, FF, CR, SP and NBSP.\<close>

definition is_ws :: "char \<Rightarrow> bool" where
  "is_ws c = (of_char c \<in> {9, 10, 11, 12, 13, 32, 160 :: nat})"

definition trim :: "string \<Rightarrow> string" where
  "trim s = rev (dropWhile is_ws (rev (dropWhile is_ws s)))"

definition lower_char :: "char \<Rightarrow> char" where
  "lower_char c =
     (let n = of_char c :: nat
      in if (65 \<le> n \<and> n \<le> 90) \<or> (192 \<le> n \<and> n \<le> 222 \<and> n \<noteq> 215)
         then char_of (n + 32) else c)"

definition toLowerCase :: "string \<Rightarrow> string" where
  "toLowerCase s = map lower_char s"

fun str_includes :: "string \<Rightarrow> string \<Rightarrow> bool" where
  "str_includes [] m = (m = [])"
| "str_includes (c # cs) m = (take (length m) (c # cs) = m \<or> str_includes cs m)"

text \<open>\<^verbatim>\<open>String(n)\<close> for an integer: its decimal digits.\<close>

fun show_nat :: "nat \<Rightarrow> string" where
  "show_nat n =
     (if n < 10 then [char_of (48 + n)]
      else show_nat (n div 10) @ [char_of (48 + n mod 10)])"

declare show_nat.simps [simp del]

definition show_int :: "int \<Rightarrow> string" where
  "show_int i = (if i < 0 then CHR ''-'' # show_nat (nat (- i)) else show_nat (nat i))"

section \<open>HTTP exchanges\<close>

text \<open>
  What \<^verbatim>\<open>await fetch(...)\<close> and the reads of the body give: the promise rejects with
  a message, or there is a response with a status, a status text and a body. Reading the
  body can fail too; otherwise it is the text, together with what \<^verbatim>\<open>JSON.parse\<close>
  makes of it (the parse error's message, or the value).
\<close>

datatype body = BodyError string | Body string "string + jsval"

datatype fetch_result = FetchError string | FetchResp int string body

definition ok :: "int \<Rightarrow> bool" where
  "ok st = (200 \<le> st \<and> st \<le> 299)"

text \<open>The answer of one of the servers' own routes: status code and JSON body.\<close>

datatype http_resp = Resp int jsval

section \<open>The video server (server.js)\<close>

record config =
  API_KEY :: string
  MAX_POLL_MS :: jsnum

datatype jstatus = Queued | Processing | Succeeded | Failed

fun status_str :: "jstatus \<Rightarrow> string" where
  "status_str Queued = ''queued''"
| "status_str Processing = ''processing''"
| "status_str Succeeded = ''succeeded''"
| "status_str Failed = ''failed''"

text \<open>
  The job object of the handler (lines 162-174). The properties \<open>error\<close>,
  \<open>providerResponse\<close> and \<open>lastProviderPayload\<close> do not exist until they are assigned:
  they start as \<open>undefined\<close>. \<open>startedAt\<close> is \<open>null\<close> (\<open>None\<close>) at creation.
\<close>

record job =
  id_job :: string
  prompt :: string
  duration :: jsnum
  width :: jsnum
  height :: jsnum
  status :: jstatus
  createdAt :: int
  startedAt :: "int option"
  providerJobId :: jsval
  resultUrl :: jsval
  maxPollMs :: jsnum
  error :: jsval
  providerResponse :: jsval
  lastProviderPayload :: jsval

text \<open>
  A detached submission task suspended at \<^verbatim>\<open>await fetch(VIDEO_API_URL, ...)\<close>, and a
  \<open>pollWorker\<close> invocation suspended at \<^verbatim>\<open>await fetch(statusUrl, ...)\<close>. Both keep a
  reference to the job object in their closure; the sweep also keeps the position of its
  iterator over the \<open>jobs\<close> map.
\<close>

record sub_task =
  st_jobId :: string
  st_job :: nat

record sweep =
  sw_index :: nat
  sw_jobId :: string
  sw_job :: nat
  sw_handle :: jsval

text \<open>
  The process state: the job objects by address (\<open>heap\<close>), the \<open>jobs\<close> map from
  identifiers to objects in insertion order, and the suspended tasks. JavaScript runs each
  piece of code between two \<^verbatim>\<open>await\<close>s to completion, so each function below that takes
  and returns a \<open>sys\<close> is one such piece. A piece reads one value of the clock.
\<close>

record sys =
  heap :: "job list"
  jobs :: "(string \<times> nat) list"
  subs :: "sub_task list"
  sweeps :: "sweep list"

definition init_sys :: sys where
  "init_sys = \<lparr>heap = [], jobs = [], subs = [], sweeps = []\<rparr>"

text \<open>\<^verbatim>\<open>Map.prototype.set\<close>: an existing key keeps its position, a new one goes last.\<close>

fun map_set :: "string \<Rightarrow> nat \<Rightarrow> (string \<times> nat) list \<Rightarrow> (string \<times> nat) list" where
  "map_set k a [] = [(k, a)]"
| "map_set k a ((k', a') # m) = (if k' = k then (k, a) # m else (k', a') # map_set k a m)"

definition map_get :: "string \<Rightarrow> (string \<times> nat) list \<Rightarrow> nat option" where
  "map_get k m = map_of m k"

subsection \<open>POST /api/generate-video (lines 145-259), up to the response\<close>

text \<open>
  The request: the parsed body, and the three numbers the handler obtains with
  \<^verbatim>\<open>parseInt\<close> from the body and the environment's defaults. The handler also draws a
  UUID and reads the clock; both are arguments.
\<close>

record video_req =
  req_body :: jsval
  req_duration :: jsnum
  req_width :: jsnum
  req_height :: jsnum

definition type_error :: string where
  "type_error = ''TypeError''"

text \<open>\<^verbatim>\<open>(req.body.prompt || '').trim()\<close>: throws when the body is missing or the prompt is
  a truthy value that is not a string.\<close>

definition trimmed_prompt :: "jsval \<Rightarrow> string + string" where
  "trimmed_prompt b =
     (if nullish b then Inl type_error
      else case js_or (js_get b ''prompt'') (JStr []) of
             JStr s \<Rightarrow> Inr (trim s)
           | _ \<Rightarrow> Inl type_error)"

definition new_job :: "config \<Rightarrow> video_req \<Rightarrow> string \<Rightarrow> string \<Rightarrow> int \<Rightarrow> job" where
  "new_job cfg req jobId p now =
     \<lparr>id_job = jobId, prompt = p, duration = req_duration req, width = req_width req,
      height = req_height req, status = Queued, createdAt = now, startedAt = None,
      providerJobId = JNull, resultUrl = JNull, maxPollMs = MAX_POLL_MS cfg,
      error = JUndefined, providerResponse = JUndefined, lastProviderPayload = JUndefined\<rparr>"

text \<open>
  The handler creates the job, stores it, and calls the detached task, which runs up to its
  first \<^verbatim>\<open>await\<close> (lines 181-193) before the handler goes on to \<^verbatim>\<open>res.json\<close>.
  The environment variable \<open>MAX_POLL_MS\<close> is read again for \<open>job.maxPollMs\<close> and
  parses to the constant \<open>MAX_POLL_MS\<close>.
\<close>

definition generate_video ::
  "config \<Rightarrow> video_req \<Rightarrow> string \<Rightarrow> int \<Rightarrow> sys \<Rightarrow> http_resp \<times> sys" where
  "generate_video cfg req jobId now s =
     (case trimmed_prompt (req_body req) of
        Inl msg \<Rightarrow> (Resp 500 (JObj [(''error'', JStr msg)]), s)
      | Inr p \<Rightarrow>
          if p = [] \<or> length p < 3
          then (Resp 400 (JObj [(''error'', JStr ''Prompt too short'')]), s)
          else if API_KEY cfg = []
          then (Resp 500 (JObj [(''error'', JStr
                  ''Server not configured with PROVIDER_API_KEY. Set it in Render environment variables.'')]), s)
          else
            let a = length (heap s);
                j = new_job cfg req jobId p now;
                s1 = s\<lparr>heap := heap s @ [j], jobs := map_set jobId a (jobs s)\<rparr>;
                s2 = s1\<lparr>heap := (heap s1)[a := (heap s1 ! a)\<lparr>status := Processing, startedAt := Some now\<rparr>],
                        jobs := map_set jobId a (jobs s1)\<rparr>;
                s3 = s2\<lparr>subs := subs s2 @ [\<lparr>st_jobId = jobId, st_job = a\<rparr>]\<rparr>
            in (Resp 200 (JObj [(''jobId'', JStr jobId), (''status'', JStr ''queued'')]), s3))"

subsection \<open>saveVideoFromBase64OrUrl (lines 38-62)\<close>

text \<open>
  What the function meets outside the program: the download of the remote file
  (\<^verbatim>\<open>fetch(remoteUrl)\<close> and \<^verbatim>\<open>resp.buffer()\<close>), whether \<^verbatim>\<open>Buffer.from\<close> or
  \<^verbatim>\<open>fs.writeFileSync\<close> throws (\<open>Some\<close> message), the clock, and
  \<^verbatim>\<open>Math.floor(Math.random()*1000)\<close>. The result is \<open>Inl\<close> when the returned promise
  rejects.
\<close>

record save_env =
  sv_fetch :: fetch_result
  sv_write :: "string option"
  sv_now :: int
  sv_rnd :: nat

definition video_filename :: "int \<Rightarrow> nat \<Rightarrow> string" where
  "video_filename now rnd = ''video-'' @ show_int now @ ''-'' @ show_nat rnd @ ''.mp4''"

definition local_ref :: "save_env \<Rightarrow> jsval" where
  "local_ref env = JStr (''/out/'' @ video_filename (sv_now env) (sv_rnd env))"

definition saveVideoFromBase64OrUrl :: "jsval \<Rightarrow> jsval \<Rightarrow> save_env \<Rightarrow> string + jsval" where
  "saveVideoFromBase64OrUrl base64 remoteUrl env =
     (if truthy base64 then
        (case sv_write env of
           Some msg \<Rightarrow> Inl msg
         | None \<Rightarrow> Inr (local_ref env))
      else if truthy remoteUrl then
        (case sv_fetch env of
           FetchError msg \<Rightarrow> Inr remoteUrl
         | FetchResp st stt b \<Rightarrow>
             if \<not> ok st then Inr remoteUrl
             else (case b of
                     BodyError msg \<Rightarrow> Inr remoteUrl
                   | Body bytes parsed \<Rightarrow>
                       (case sv_write env of
                          Some msg \<Rightarrow> Inr remoteUrl
                        | None \<Rightarrow> Inr (local_ref env))))
      else Inr JNull)"

subsection \<open>The detached submission task after its first await (lines 193-249)\<close>

text \<open>
  The task does not read the job between its awaits and writes it only at the end, in one
  run-to-completion piece together with \<^verbatim>\<open>jobs.set(jobId, job)\<close>. So the awaits of one
  task (the provider's response, its body, the download) are one suspension here, resumed
  with all their outcomes.
\<close>

record submit_env =
  se_resp :: fetch_result
  se_save :: save_env

definition set_job :: "string \<Rightarrow> nat \<Rightarrow> (job \<Rightarrow> job) \<Rightarrow> sys \<Rightarrow> sys" where
  "set_job jobId a f s = s\<lparr>heap := (heap s)[a := f (heap s ! a)], jobs := map_set jobId a (jobs s)\<rparr>"

definition fail_job :: "jsval \<Rightarrow> job \<Rightarrow> job" where
  "fail_job e j = j\<lparr>status := Failed, error := e\<rparr>"

definition provider_handle :: "jsval \<Rightarrow> jsval" where
  "provider_handle pdata =
     js_or (js_or (js_or (js_get pdata ''id'') (js_get pdata ''job_id'')) (js_get pdata ''task_id''))
           (js_and (js_get pdata ''data'') (js_get (js_get pdata ''data'') ''id''))"

definition submit_data :: "jsval \<Rightarrow> save_env \<Rightarrow> job \<Rightarrow> job" where
  "submit_data pdata env =
     (if nullish pdata then fail_job (JStr type_error)
      else if truthy (js_get pdata ''video_url'') then
        (case saveVideoFromBase64OrUrl JUndefined (js_get pdata ''video_url'') env of
           Inl msg \<Rightarrow> fail_job (JStr msg)
         | Inr saved \<Rightarrow>
             (\<lambda>j. j\<lparr>status := Succeeded, resultUrl := js_or saved (js_get pdata ''video_url''),
                    providerResponse := pdata\<rparr>))
      else if truthy (js_get pdata ''video_base64'') then
        (case saveVideoFromBase64OrUrl (js_get pdata ''video_base64'') JUndefined env of
           Inl msg \<Rightarrow> fail_job (JStr msg)
         | Inr saved \<Rightarrow>
             (\<lambda>j. j\<lparr>status := Succeeded, resultUrl := saved, providerResponse := pdata\<rparr>))
      else if truthy (provider_handle pdata) then
        (\<lambda>j. j\<lparr>providerJobId := provider_handle pdata, providerResponse := pdata\<rparr>)
      else fail_job (JObj [(''note'', JStr ''Unexpected provider response''), (''payload'', pdata)]))"

definition submit_outcome :: "submit_env \<Rightarrow> job \<Rightarrow> job" where
  "submit_outcome env =
     (case se_resp env of
        FetchError msg \<Rightarrow> fail_job (JStr msg)
      | FetchResp st stt b \<Rightarrow>
          if \<not> ok st then
            (case b of
               BodyError msg \<Rightarrow> fail_job (JStr msg)
             | Body txt parsed \<Rightarrow>
                 fail_job (JStr (''Provider initial error: '' @ show_int st @ '' '' @ txt)))
          else
            (case b of
               BodyError msg \<Rightarrow> fail_job (JStr msg)
             | Body txt (Inl msg) \<Rightarrow> fail_job (JStr msg)
             | Body txt (Inr pdata) \<Rightarrow> submit_data pdata (se_save env)))"

definition remove_nth :: "nat \<Rightarrow> 'a list \<Rightarrow> 'a list" where
  "remove_nth i xs = take i xs @ drop (Suc i) xs"

definition submit_resume :: "nat \<Rightarrow> submit_env \<Rightarrow> sys \<Rightarrow> sys" where
  "submit_resume i env s =
     (if i < length (subs s) then
        let t = subs s ! i;
            s1 = s\<lparr>subs := remove_nth i (subs s)\<rparr>
        in set_job (st_jobId t) (st_job t) (submit_outcome env) s1
      else s)"

subsection \<open>pollWorker (lines 65-128)\<close>

text \<open>\<^verbatim>\<open>job.maxPollMs || MAX_POLL_MS\<close>, \<^verbatim>\<open>Date.now() - job.startedAt\<close> (where
  \<open>null\<close> counts as 0) and the comparison, which is false against \<open>NaN\<close>.\<close>

definition effective_max :: "config \<Rightarrow> job \<Rightarrow> jsnum" where
  "effective_max cfg j =
     (case maxPollMs j of
        None \<Rightarrow> MAX_POLL_MS cfg
      | Some n \<Rightarrow> if n \<noteq> 0 then Some n else MAX_POLL_MS cfg)"

definition elapsed :: "int \<Rightarrow> job \<Rightarrow> int" where
  "elapsed now j = now - (case startedAt j of None \<Rightarrow> 0 | Some t \<Rightarrow> t)"

definition timed_out :: "config \<Rightarrow> int \<Rightarrow> job \<Rightarrow> bool" where
  "timed_out cfg now j =
     (case effective_max cfg j of None \<Rightarrow> False | Some m \<Rightarrow> elapsed now j > m)"

definition timeout_job :: "job \<Rightarrow> job" where
  "timeout_job j = j\<lparr>status := Failed, error := JStr ''Polling timeout''\<rparr>"

text \<open>
  The loop over \<^verbatim>\<open>jobs.entries()\<close> from the entry at position \<open>i\<close>, until the sweep
  suspends at the status request of a job or the entries are exhausted. The status request
  goes to the URL built from \<open>providerJobId\<close>; the suspended sweep records that handle.
\<close>

fun pollLoop :: "config \<Rightarrow> int \<Rightarrow> nat \<Rightarrow> (string \<times> nat) list \<Rightarrow> sys \<Rightarrow> sys" where
  "pollLoop cfg now i [] s = s"
| "pollLoop cfg now i ((jobId, a) # es) s =
     (if status (heap s ! a) \<noteq> Processing then pollLoop cfg now (Suc i) es s
      else if timed_out cfg now (heap s ! a) then
        pollLoop cfg now (Suc i) es (set_job jobId a timeout_job s)
      else if \<not> truthy (providerJobId (heap s ! a)) then pollLoop cfg now (Suc i) es s
      else s\<lparr>sweeps := sweeps s @
                [\<lparr>sw_index = i, sw_jobId = jobId, sw_job = a,
                  sw_handle = providerJobId (heap s ! a)\<rparr>]\<rparr>)"

definition pollWorker :: "config \<Rightarrow> int \<Rightarrow> sys \<Rightarrow> sys" where
  "pollWorker cfg now s = pollLoop cfg now 0 (jobs s) s"

record poll_env =
  pe_resp :: fetch_result
  pe_save :: save_env

definition poll_status :: "jsval \<Rightarrow> jsval" where
  "poll_status sData =
     js_or (js_or (js_get sData ''status'') (js_get sData ''state''))
           (js_and (js_get sData ''result'') (js_get (js_get sData ''result'') ''status''))"

definition poll_vidUrl :: "jsval \<Rightarrow> jsval" where
  "poll_vidUrl sData =
     js_or (js_or (js_or (js_or (js_get sData ''video_url'') (js_get sData ''output_url''))
                         (js_and (js_get sData ''result'') (js_get (js_get sData ''result'') ''video_url'')))
                  (js_and (js_and (js_get sData ''output'') (index0 (js_get sData ''output'')))
                          (js_get (index0 (js_get sData ''output'')) ''url'')))
           (js_and (js_and (js_get sData ''data'') (index0 (js_get sData ''data'')))
                   (js_get (index0 (js_get sData ''data'')) ''url''))"

definition poll_b64 :: "jsval \<Rightarrow> jsval" where
  "poll_b64 sData =
     js_or (js_or (js_get sData ''video_base64'')
                  (js_and (js_and (js_get sData ''output'') (index0 (js_get sData ''output'')))
                          (js_get (index0 (js_get sData ''output'')) ''base64'')))
           (js_and (js_and (js_get sData ''data'') (index0 (js_get sData ''data'')))
                   (js_get (index0 (js_get sData ''data'')) ''base64''))"

definition is_success :: "jsval \<Rightarrow> bool" where
  "is_success st =
     (truthy st \<and> (st = JStr ''succeeded'' \<or> st = JStr ''completed'' \<or> st = JStr ''finished''))"

definition is_failure :: "jsval \<Rightarrow> bool" where
  "is_failure st = (truthy st \<and> (st = JStr ''failed'' \<or> st = JStr ''error''))"

text \<open>The mutation a status response leads to; \<open>None\<close> where the loop goes on without
  touching the job (a response that is not ok, or an exception caught at line 123).\<close>

definition poll_data :: "jsval \<Rightarrow> save_env \<Rightarrow> (job \<Rightarrow> job) option" where
  "poll_data sData env =
     (if nullish sData then None
      else if is_success (poll_status sData) then
        (case saveVideoFromBase64OrUrl (poll_b64 sData) (poll_vidUrl sData) env of
           Inl msg \<Rightarrow> None
         | Inr saved \<Rightarrow>
             Some (\<lambda>j. j\<lparr>status := Succeeded,
                          resultUrl := js_or (js_or saved (poll_vidUrl sData)) JNull,
                          providerResponse := sData\<rparr>))
      else if is_failure (poll_status sData) then Some (fail_job sData)
      else Some (\<lambda>j. j\<lparr>lastProviderPayload := sData\<rparr>))"

definition poll_outcome :: "poll_env \<Rightarrow> (job \<Rightarrow> job) option" where
  "poll_outcome env =
     (case pe_resp env of
        FetchError msg \<Rightarrow> None
      | FetchResp st stt b \<Rightarrow>
          if \<not> ok st then None
          else (case b of
                  BodyError msg \<Rightarrow> None
                | Body txt (Inl msg) \<Rightarrow> None
                | Body txt (Inr sData) \<Rightarrow> poll_data sData (pe_save env)))"

text \<open>A suspended sweep resumes: it applies the outcome to the job object it holds and
  goes on with the entries after its position in the map as it is now.\<close>

definition sweep_resume :: "config \<Rightarrow> int \<Rightarrow> nat \<Rightarrow> poll_env \<Rightarrow> sys \<Rightarrow> sys" where
  "sweep_resume cfg now i env s =
     (if i < length (sweeps s) then
        let w = sweeps s ! i;
            s1 = s\<lparr>sweeps := remove_nth i (sweeps s)\<rparr>;
            s2 = (case poll_outcome env of
                    None \<Rightarrow> s1
                  | Some f \<Rightarrow> set_job (sw_jobId w) (sw_job w) f s1)
        in pollLoop cfg now (Suc (sw_index w)) (drop (Suc (sw_index w)) (jobs s2)) s2
      else s)"

subsection \<open>GET /api/status/:jobId (lines 262-276)\<close>

definition get_status :: "string \<Rightarrow> sys \<Rightarrow> http_resp" where
  "get_status jobId s =
     (case map_get jobId (jobs s) of
        None \<Rightarrow> Resp 404 (JObj [(''error'', JStr ''Job not found'')])
      | Some a \<Rightarrow>
          Resp 200 (JObj
            [(''id'', JStr (id_job (heap s ! a))),
             (''status'', JStr (status_str (status (heap s ! a)))),
             (''prompt'', JStr (prompt (heap s ! a))),
             (''resultUrl'', resultUrl (heap s ! a)),
             (''error'', error (heap s ! a)),
             (''providerJobId'', providerJobId (heap s ! a)),
             (''providerResponseSummary'',
                if truthy (providerResponse (heap s ! a))
                then js_or (js_or (js_get (providerResponse (heap s ! a)) ''id'')
                                  (js_get (providerResponse (heap s ! a)) ''job_id'')) JNull
                else JNull)]))"

subsection \<open>The event loop\<close>

text \<open>
  What can happen to the process, in any order: a submission request arrives (with the UUID
  drawn and the clock), the provider's answer to a submission resumes a detached task, the
  timer of \<^verbatim>\<open>setInterval(pollWorker, POLL_INTERVAL_MS)\<close> fires, a status response resumes
  a suspended sweep. The timer calls \<open>pollWorker\<close> without looking at earlier invocations.
\<close>

datatype event =
    Submit video_req string int
  | SubmitDone nat submit_env
  | Tick int
  | PollDone nat int poll_env

fun step :: "config \<Rightarrow> sys \<Rightarrow> event \<Rightarrow> sys" where
  "step cfg s (Submit req jobId now) = snd (generate_video cfg req jobId now s)"
| "step cfg s (SubmitDone i env) = submit_resume i env s"
| "step cfg s (Tick now) = pollWorker cfg now s"
| "step cfg s (PollDone i now env) = sweep_resume cfg now i env s"

definition run :: "config \<Rightarrow> event list \<Rightarrow> sys" where
  "run cfg evs = foldl (step cfg) init_sys evs"

section \<open>The image server (the second server file, with the form-data fallback)\<close>

text \<open>
  The repository holds a third file, index.js: the same image handler with a single JSON
  request and no fallback. What is said of the image server below is said of the file with
  the fallback.
\<close>

subsection \<open>Base64 and data URLs\<close>

text \<open>
  \<^verbatim>\<open>Buffer.from(data, 'base64')\<close> is Node's decoder: it accepts the standard and the URL-safe
  alphabet, skips any other character and stops at the first \<^verbatim>\<open>=\<close>. Bytes are
  characters.
\<close>

definition b64_value :: "char \<Rightarrow> nat option" where
  "b64_value c =
     (let n = of_char c :: nat
      in if 65 \<le> n \<and> n \<le> 90 then Some (n - 65)
         else if 97 \<le> n \<and> n \<le> 122 then Some (n - 71)
         else if 48 \<le> n \<and> n \<le> 57 then Some (n + 4)
         else if c = CHR ''+'' \<or> c = CHR ''-'' then Some 62
         else if c = CHR ''/'' \<or> c = CHR ''_'' then Some 63
         else None)"

fun sextets :: "string \<Rightarrow> nat list" where
  "sextets [] = []"
| "sextets (c # cs) =
     (if c = CHR ''='' then []
      else case b64_value c of None \<Rightarrow> sextets cs | Some v \<Rightarrow> v # sextets cs)"

fun b64_bytes :: "nat list \<Rightarrow> string" where
  "b64_bytes (a # b # c # d # r) =
     char_of (a * 4 + b div 16) # char_of ((b mod 16) * 16 + c div 4)
       # char_of ((c mod 4) * 64 + d) # b64_bytes r"
| "b64_bytes [a, b, c] = [char_of (a * 4 + b div 16), char_of ((b mod 16) * 16 + c div 4)]"
| "b64_bytes [a, b] = [char_of (a * 4 + b div 16)]"
| "b64_bytes r = []"

definition b64decode :: "string \<Rightarrow> string" where
  "b64decode s = b64_bytes (sextets s)"

text \<open>
  The regular expression \<^verbatim>\<open>/^data:([A-Za-z-+/]+);base64,(.+)$/\<close>: the class has no
  \<^verbatim>\<open>;\<close>, so the first group is the longest run of class characters; the second group is
  the rest, which must be non-empty and free of line terminators.
\<close>

definition mime_char :: "char \<Rightarrow> bool" where
  "mime_char c =
     (let n = of_char c :: nat
      in (65 \<le> n \<and> n \<le> 90) \<or> (97 \<le> n \<and> n \<le> 122)
         \<or> c = CHR ''-'' \<or> c = CHR ''+'' \<or> c = CHR ''/'')"

definition line_terminator :: "char \<Rightarrow> bool" where
  "line_terminator c = (of_char c \<in> {10, 13 :: nat})"

definition data_url_match :: "string \<Rightarrow> (string \<times> string) option" where
  "data_url_match s =
     (if take 5 s = ''data:'' then
        let mime = takeWhile mime_char (drop 5 s);
            r = dropWhile mime_char (drop 5 s)
        in if mime \<noteq> [] \<and> take 8 r = '';base64,'' \<and> drop 8 r \<noteq> []
              \<and> list_all (\<lambda>c. \<not> line_terminator c) (drop 8 r)
           then Some (mime, drop 8 r) else None
      else None)"

subsection \<open>The effects of a request\<close>

text \<open>
  The handler's calls to the outside are logged in order. A form field's value is the
  value itself, its \<^verbatim>\<open>String(...)\<close> or its \<^verbatim>\<open>JSON.stringify(...)\<close>.
\<close>

datatype fval = FValue jsval | FString jsval | FJson jsval

datatype call =
    PostJson jsval
  | PostForm "(string \<times> fval) list"
  | Download jsval
  | WriteFile string string

record image_req =
  ireq_body :: jsval
  ireq_width :: jsnum
  ireq_height :: jsnum
  ireq_samples :: jsnum

text \<open>
  The outside of one request: the provider's answers to the JSON and to the multipart
  request, the download of a result URL, whether \<^verbatim>\<open>fs.writeFileSync\<close> throws, the clock
  and \<^verbatim>\<open>Math.floor(Math.random()*10000)\<close>.
\<close>

record image_env =
  ie_json :: fetch_result
  ie_form :: fetch_result
  ie_download :: fetch_result
  ie_write :: "string option"
  ie_now :: int
  ie_rnd :: nat

subsection \<open>saveBase64ImageToOut (lines 23-39)\<close>

definition image_filename :: "image_env \<Rightarrow> string \<Rightarrow> string" where
  "image_filename env ext =
     ''image-'' @ show_int (ie_now env) @ ''-'' @ show_nat (ie_rnd env) @ ''.'' @ ext"

definition mime_ext :: "string \<Rightarrow> string" where
  "mime_ext mime =
     (if mime = ''image/jpeg'' \<or> mime = ''image/jpg'' then ''jpg''
      else if mime = ''image/webp'' then ''webp''
      else ''png'')"

text \<open>On a value that is not a string, \<^verbatim>\<open>base64String.match\<close> is not a function.
  The result is the public path and the file written.\<close>

definition saveBase64ImageToOut :: "jsval \<Rightarrow> image_env \<Rightarrow> string + (string \<times> call)" where
  "saveBase64ImageToOut base64String env =
     (case base64String of
        JStr s \<Rightarrow>
          (let (dat, ext) = (case data_url_match s of
                               Some (mime, d) \<Rightarrow> (d, mime_ext mime)
                             | None \<Rightarrow> (s, ''png''))
           in case ie_write env of
                Some msg \<Rightarrow> Inl msg
              | None \<Rightarrow> Inr (''/out/'' @ image_filename env ext,
                            WriteFile (image_filename env ext) (b64decode dat)))
      | _ \<Rightarrow> Inl type_error)"

subsection \<open>postJsonToProvider and postFormToProvider (lines 45-102)\<close>

record attempt =
  at_ok :: bool
  at_status :: int
  at_statusText :: string
  at_text :: string
  at_json :: jsval

text \<open>What both functions make of the exchange: they throw when \<^verbatim>\<open>fetch\<close> or the read
  of the body does, and a body that is not JSON gives \<open>json = null\<close>.\<close>

definition read_attempt :: "fetch_result \<Rightarrow> string + attempt" where
  "read_attempt r =
     (case r of
        FetchError msg \<Rightarrow> Inl msg
      | FetchResp st stt b \<Rightarrow>
          (case b of
             BodyError msg \<Rightarrow> Inl msg
           | Body txt parsed \<Rightarrow>
               Inr \<lparr>at_ok = ok st, at_status = st, at_statusText = stt, at_text = txt,
                    at_json = (case parsed of Inl msg \<Rightarrow> JNull | Inr v \<Rightarrow> v)\<rparr>))"

definition postJsonToProvider :: "jsval \<Rightarrow> fetch_result \<Rightarrow> (string + attempt) \<times> call list" where
  "postJsonToProvider bodyObj r = (read_attempt r, [PostJson bodyObj])"

fun is_array :: "jsval \<Rightarrow> bool" where
  "is_array (JArr xs) = True"
| "is_array v = False"

definition form_fields :: "jsval \<Rightarrow> (string \<times> fval) list" where
  "form_fields bodyObj =
     (if truthy (js_get bodyObj ''text_prompts'') then
        [(''text_prompts'', FJson (js_get bodyObj ''text_prompts'')),
         (''prompt'',
            if is_array (js_get bodyObj ''text_prompts'')
               \<and> truthy (index0 (js_get bodyObj ''text_prompts''))
               \<and> truthy (js_get (index0 (js_get bodyObj ''text_prompts'')) ''text'')
            then FValue (js_get (index0 (js_get bodyObj ''text_prompts'')) ''text'')
            else FJson (js_get bodyObj ''text_prompts''))]
      else if truthy (js_get bodyObj ''prompt'') then
        [(''prompt'', FString (js_get bodyObj ''prompt''))]
      else [])
     @ (if truthy (js_get bodyObj ''width'') then [(''width'', FString (js_get bodyObj ''width''))] else [])
     @ (if truthy (js_get bodyObj ''height'') then [(''height'', FString (js_get bodyObj ''height''))] else [])
     @ (if truthy (js_get bodyObj ''samples'') then [(''samples'', FString (js_get bodyObj ''samples''))] else [])
     @ (if truthy (js_get bodyObj ''model'') then [(''model'', FValue (js_get bodyObj ''model''))] else [])"

definition postFormToProvider :: "jsval \<Rightarrow> fetch_result \<Rightarrow> (string + attempt) \<times> call list" where
  "postFormToProvider bodyObj r = (read_attempt r, [PostForm (form_fields bodyObj)])"

subsection \<open>POST /api/generate-image (lines 104-199)\<close>

definition image_b64 :: "jsval \<Rightarrow> jsval" where
  "image_b64 pdata =
     js_or (js_or (js_and (js_and (js_and pdata (js_get pdata ''artifacts''))
                                  (index0 (js_get pdata ''artifacts'')))
                          (js_get (index0 (js_get pdata ''artifacts'')) ''base64''))
                  (js_and pdata (js_get pdata ''image_base64'')))
           JNull"

definition image_url :: "jsval \<Rightarrow> jsval" where
  "image_url pdata =
     js_or (js_or (js_and (js_and (js_and pdata (js_get pdata ''output''))
                                  (index0 (js_get pdata ''output'')))
                          (js_get (index0 (js_get pdata ''output'')) ''url''))
                  (js_and pdata (js_get pdata ''image_url'')))
           JNull"

definition image_ok :: "jsval \<Rightarrow> jsval \<Rightarrow> http_resp" where
  "image_ok u pdata = Resp 200 (JObj [(''imageUrl'', u), (''providerResponse'', pdata)])"

text \<open>
  The block the handler runs on an attempt that is ok (lines 124-148, and again 156-180
  with another message): \<open>Inl\<close> is an exception that reaches the handler's catch.
\<close>

definition image_result :: "string \<Rightarrow> jsval \<Rightarrow> image_env \<Rightarrow> (string + http_resp) \<times> call list" where
  "image_result none_msg json env =
     (let pdata = js_or json JNull in
      if truthy (image_b64 pdata) then
        (case saveBase64ImageToOut (image_b64 pdata) env of
           Inl msg \<Rightarrow> (Inl msg, [])
         | Inr (path, c) \<Rightarrow> (Inr (image_ok (JStr path) pdata), [c]))
      else if truthy (image_url pdata) then
        (case ie_download env of
           FetchError msg \<Rightarrow> (Inr (image_ok (image_url pdata) pdata), [Download (image_url pdata)])
         | FetchResp st stt b \<Rightarrow>
             if ok st then
               (case b of
                  BodyError msg \<Rightarrow>
                    (Inr (image_ok (image_url pdata) pdata), [Download (image_url pdata)])
                | Body bytes parsed \<Rightarrow>
                    (case ie_write env of
                       Some msg \<Rightarrow>
                         (Inr (image_ok (image_url pdata) pdata), [Download (image_url pdata)])
                     | None \<Rightarrow>
                         (Inr (image_ok (JStr (''/out/'' @ image_filename env ''png'')) pdata),
                          [Download (image_url pdata),
                           WriteFile (image_filename env ''png'') bytes])))
             else (Inr (image_ok (image_url pdata) pdata), [Download (image_url pdata)]))
      else (Inr (Resp 500 (JObj [(''error'', JStr none_msg), (''payload'', pdata)])), []))"

text \<open>The test of line 153 on the status and the text of the failed JSON attempt.\<close>

definition retry_markers :: "int \<Rightarrow> string \<Rightarrow> bool" where
  "retry_markers st txt =
     (st = 400
      \<or> str_includes (toLowerCase txt) ''multipart''
      \<or> str_includes (toLowerCase txt) ''content-type''
      \<or> str_includes (toLowerCase txt) ''accept''
      \<or> str_includes (toLowerCase txt) ''prompt: required'')"

definition retry_signal :: "attempt \<Rightarrow> bool" where
  "retry_signal ja = retry_markers (at_status ja) (at_text ja)"

definition composite_error :: "attempt \<Rightarrow> attempt \<Rightarrow> http_resp" where
  "composite_error ja fa =
     Resp 502 (JObj
       [(''error'', JStr (''Provider initial error (json '' @ show_int (at_status ja)
                          @ '') and form-data retry (status '' @ show_int (at_status fa) @ '')'')),
        (''jsonAttempt'', JObj [(''status'', JNum (at_status ja)), (''text'', JStr (at_text ja))]),
        (''formAttempt'', JObj [(''status'', JNum (at_status fa)), (''text'', JStr (at_text fa))])])"

definition caught :: "string \<Rightarrow> http_resp" where
  "caught msg = Resp 500 (JObj [(''error'', JStr msg)])"

definition finish :: "call list \<Rightarrow> (string + http_resp) \<times> call list \<Rightarrow> http_resp \<times> call list" where
  "finish pre r = ((case fst r of Inl msg \<Rightarrow> caught msg | Inr resp \<Rightarrow> resp), pre @ snd r)"

definition image_payload :: "string \<Rightarrow> image_req \<Rightarrow> jsval" where
  "image_payload p req =
     JObj [(''text_prompts'', JArr [JObj [(''text'', JStr p)]]),
           (''width'', num (ireq_width req)),
           (''height'', num (ireq_height req)),
           (''samples'', num (ireq_samples req))]"

definition generate_image :: "string \<Rightarrow> image_req \<Rightarrow> image_env \<Rightarrow> http_resp \<times> call list" where
  "generate_image apiKey req env =
     (case trimmed_prompt (ireq_body req) of
        Inl msg \<Rightarrow> (caught msg, [])
      | Inr p \<Rightarrow>
          if p = [] \<or> length p < 3
          then (Resp 400 (JObj [(''error'', JStr ''Prompt too short'')]), [])
          else if apiKey = []
          then (Resp 500 (JObj [(''error'', JStr ''Server not configured with PROVIDER_API_KEY'')]), [])
          else
            (case postJsonToProvider (image_payload p req) (ie_json env) of
               (Inl msg, c1) \<Rightarrow> (caught msg, c1)
             | (Inr ja, c1) \<Rightarrow>
                 if at_ok ja
                 then finish c1 (image_result ''No image returned in provider JSON'' (at_json ja) env)
                 else if retry_signal ja then
                   (case postFormToProvider (image_payload p req) (ie_form env) of
                      (Inl msg, c2) \<Rightarrow> (caught msg, c1 @ c2)
                    | (Inr fa, c2) \<Rightarrow>
                        if at_ok fa
                        then finish (c1 @ c2)
                               (image_result ''No image returned in provider form response'' (at_json fa) env)
                        else (composite_error ja fa, c1 @ c2))
                 else
                   (Resp 502 (JObj
                      [(''error'', JStr (''Provider initial error: '' @ show_int (at_status ja)
                                         @ '' '' @ at_statusText ja)),
                       (''details'', JStr (at_text ja))]), c1)))"

section \<open>Properties\<close>

subsection \<open>Well-formed states\<close>

text \<open>Every reference held by the map or by a suspended task is an allocated object, and no
  object is left in \<open>queued\<close> between two run-to-completion pieces.\<close>

definition wf_sys :: "sys \<Rightarrow> bool" where
  "wf_sys s = ((\<forall>e \<in> set (jobs s). snd e < length (heap s)) \<and>
           (\<forall>t \<in> set (subs s). st_job t < length (heap s)) \<and>
           (\<forall>w \<in> set (sweeps s). sw_job w < length (heap s)))"

definition no_queued :: "sys \<Rightarrow> bool" where
  "no_queued s = (\<forall>j \<in> set (heap s). status j \<noteq> Queued)"

fun resp_body :: "http_resp \<Rightarrow> jsval" where
  "resp_body (Resp code b) = b"

fun resp_code :: "http_resp \<Rightarrow> int" where
  "resp_code (Resp code b) = code"

subsection \<open>The predicates of the claims\<close>

text \<open>A property of a job is set when it holds a value: neither \<open>undefined\<close> nor \<open>null\<close>.\<close>

definition is_set :: "jsval \<Rightarrow> bool" where
  "is_set v = (\<not> nullish v)"

definition terminal :: "jstatus \<Rightarrow> bool" where
  "terminal st = (st = Succeeded \<or> st = Failed)"

text \<open>Exactly one of result and error once terminal, neither before.\<close>

definition result_xor_error :: "job \<Rightarrow> bool" where
  "result_xor_error j =
     (if terminal (status j) then is_set (resultUrl j) \<noteq> is_set (error j)
      else \<not> is_set (resultUrl j) \<and> \<not> is_set (error j))"

text \<open>The moves of the lattice \<open>queued \<rightarrow> processing \<rightarrow> {succeeded | failed}\<close>,
  staying in place included.\<close>

fun lattice_move :: "jstatus \<Rightarrow> jstatus \<Rightarrow> bool" where
  "lattice_move Queued st = True"
| "lattice_move Processing st = (st \<noteq> Queued)"
| "lattice_move Succeeded st = (st = Succeeded)"
| "lattice_move Failed st = (st = Failed)"

text \<open>Single flight: no two suspended sweeps wait for a status check of the same job.\<close>

definition single_flight :: "sys \<Rightarrow> bool" where
  "single_flight s = distinct (map sw_job (sweeps s))"

fun is_tick :: "event \<Rightarrow> bool" where
  "is_tick (Tick now) = True"
| "is_tick e = False"

fun is_form_post :: "call \<Rightarrow> bool" where
  "is_form_post (PostForm fs) = True"
| "is_form_post c = False"

definition form_posts :: "call list \<Rightarrow> nat" where
  "form_posts cs = length (filter is_form_post cs)"



subsection \<open>Concrete inputs\<close>

text \<open>A configured server with the default five minutes of polling, the same without a
  credential, and requests with a usable and with a too short prompt.\<close>

definition cfg0 :: config where
  "cfg0 = \<lparr>API_KEY = ''key'', MAX_POLL_MS = Some 300000\<rparr>"

definition cfg_nokey :: config where
  "cfg_nokey = \<lparr>API_KEY = [], MAX_POLL_MS = Some 300000\<rparr>"

definition req0 :: video_req where
  "req0 = \<lparr>req_body = JObj [(''prompt'', JStr ''  a red fox '')], req_duration = Some 10,
           req_width = Some 1920, req_height = Some 1080\<rparr>"

definition req_short :: video_req where
  "req_short = \<lparr>req_body = JObj [(''prompt'', JStr '' ab '')], req_duration = Some 10,
                req_width = Some 1920, req_height = Some 1080\<rparr>"

text \<open>A materializer environment for exchanges in which nothing is stored, and one in which
  a download succeeds.\<close>

definition no_save :: save_env where
  "no_save = \<lparr>sv_fetch = FetchError ''unused'', sv_write = None, sv_now = 0, sv_rnd = 0\<rparr>"

definition good_save :: save_env where
  "good_save = \<lparr>sv_fetch = FetchResp 200 ''OK'' (Body ''mp4 bytes'' (Inl ''not JSON'')),
                sv_write = None, sv_now = 303500, sv_rnd = 42\<rparr>"

text \<open>Provider answers to the submission: a handle to poll, and a finished video.\<close>

definition handle_answer :: submit_env where
  \<open>handle_answer =
     \<lparr>se_resp = FetchResp 200 ''OK''
        (Body ''{"task_id":"abc123"}'' (Inr (JObj [(''task_id'', JStr ''abc123'')]))),
      se_save = no_save\<rparr>\<close>

definition video_answer :: submit_env where
  \<open>video_answer =
     \<lparr>se_resp = FetchResp 200 ''OK''
        (Body ''{"video_url":"https://x/v.mp4"}'' (Inr (JObj [(''video_url'', JStr ''https://x/v.mp4'')]))),
      se_save = good_save\<rparr>\<close>

text \<open>A status response that reports success and carries no result.\<close>

definition bare_success :: poll_env where
  \<open>bare_success =
     \<lparr>pe_resp = FetchResp 200 ''OK''
        (Body ''{"status":"succeeded"}'' (Inr (JObj [(''status'', JStr ''succeeded'')]))),
      pe_save = no_save\<rparr>\<close>

text \<open>The job of \<open>req0\<close> as the handler leaves it, submitted at time 0 under the
  identifier \<open>j1\<close>, and the same job once the provider has answered with a handle.\<close>

definition job1 :: job where
  "job1 = \<lparr>id_job = ''j1'', prompt = ''a red fox'', duration = Some 10, width = Some 1920,
           height = Some 1080, status = Processing, createdAt = 0, startedAt = Some 0,
           providerJobId = JNull, resultUrl = JNull, maxPollMs = Some 300000,
           error = JUndefined, providerResponse = JUndefined,
           lastProviderPayload = JUndefined\<rparr>"

definition job1_polled :: job where
  "job1_polled = job1\<lparr>providerJobId := JStr ''abc123'',
                       providerResponse := JObj [(''task_id'', JStr ''abc123'')]\<rparr>"

definition sweep1 :: sweep where
  "sweep1 = \<lparr>sw_index = 0, sw_jobId = ''j1'', sw_job = 0, sw_handle = JStr ''abc123''\<rparr>"

text \<open>The bodies of the extraction examples.\<close>

definition art_body :: jsval where
  "art_body = JObj [(''artifacts'', JArr [JObj [(''base64'', JStr ''QUJD'')]])]"

definition url_body :: jsval where
  "url_body = JObj [(''output'', JArr [JObj [(''url'', JStr ''https://x/y.png'')]])]"

definition other_body :: jsval where
  "other_body = JObj [(''message'', JStr ''done'')]"

text \<open>An image request, and environments of the image handler: the provider answers the
  JSON request with the artifacts body; it rejects the JSON request with status 415 and a
  text that names multipart, and then the multipart request with status 422; it rejects
  the JSON request with status 503 and no marker; the JSON request fails in the network.\<close>

definition ireq0 :: image_req where
  "ireq0 = \<lparr>ireq_body = JObj [(''prompt'', JStr ''a red fox'')], ireq_width = Some 512,
            ireq_height = Some 512, ireq_samples = Some 1\<rparr>"

definition env_art :: image_env where
  \<open>env_art =
     \<lparr>ie_json = FetchResp 200 ''OK'' (Body ''{"artifacts":[{"base64":"QUJD"}]}'' (Inr art_body)),
      ie_form = FetchError ''unused'', ie_download = FetchError ''unused'',
      ie_write = None, ie_now = 1700, ie_rnd = 7\<rparr>\<close>

definition env_both_fail :: image_env where
  "env_both_fail =
     \<lparr>ie_json = FetchResp 415 ''Unsupported Media Type''
                  (Body ''expected multipart/form-data'' (Inl ''not JSON'')),
      ie_form = FetchResp 422 ''Unprocessable Entity'' (Body ''bad prompt'' (Inl ''not JSON'')),
      ie_download = FetchError ''unused'', ie_write = None, ie_now = 1700, ie_rnd = 7\<rparr>"

definition env_unavailable :: image_env where
  "env_unavailable =
     \<lparr>ie_json = FetchResp 503 ''Service Unavailable'' (Body ''try later'' (Inl ''not JSON'')),
      ie_form = FetchError ''unused'', ie_download = FetchError ''unused'',
      ie_write = None, ie_now = 1700, ie_rnd = 7\<rparr>"

text \<open>The states of the process along the runs used below: after the submission of
  \<open>req0\<close>; after the sweep at 303000 ms, with the submission still unanswered; after the
  provider's late answer with a finished video; after the provider's answer with a handle;
  with one and with two sweeps waiting for the status of the job; after a status response
  that reports success and carries no result.\<close>

definition sys_submitted :: sys where
  "sys_submitted = \<lparr>heap = [job1], jobs = [(''j1'', 0)],
                    subs = [\<lparr>st_jobId = ''j1'', st_job = 0\<rparr>], sweeps = []\<rparr>"

definition sys_timed_out :: sys where
  "sys_timed_out = \<lparr>heap = [job1\<lparr>status := Failed, error := JStr ''Polling timeout''\<rparr>],
                    jobs = [(''j1'', 0)],
                    subs = [\<lparr>st_jobId = ''j1'', st_job = 0\<rparr>], sweeps = []\<rparr>"

definition sys_overwritten :: sys where
  "sys_overwritten =
     \<lparr>heap = [job1\<lparr>status := Succeeded, error := JStr ''Polling timeout'',
                    resultUrl := JStr ''/out/video-303500-42.mp4'',
                    providerResponse := JObj [(''video_url'', JStr ''https://x/v.mp4'')]\<rparr>],
      jobs = [(''j1'', 0)], subs = [], sweeps = []\<rparr>"

definition sys_polled :: sys where
  "sys_polled = \<lparr>heap = [job1_polled], jobs = [(''j1'', 0)], subs = [], sweeps = []\<rparr>"

definition sys_checking :: sys where
  "sys_checking = \<lparr>heap = [job1_polled], jobs = [(''j1'', 0)], subs = [], sweeps = [sweep1]\<rparr>"

definition sys_checking_twice :: sys where
  "sys_checking_twice =
     \<lparr>heap = [job1_polled], jobs = [(''j1'', 0)], subs = [], sweeps = [sweep1, sweep1]\<rparr>"

definition sys_bare_success :: sys where
  "sys_bare_success =
     \<lparr>heap = [job1_polled\<lparr>status := Succeeded, resultUrl := JNull,
                           providerResponse := JObj [(''status'', JStr ''succeeded'')]\<rparr>],
      jobs = [(''j1'', 0)], subs = [], sweeps = []\<rparr>"

definition env_network :: image_env where
  "env_network =
     \<lparr>ie_json = FetchError ''socket hang up'', ie_form = FetchError ''unused'',
      ie_download = FetchError ''unused'', ie_write = None, ie_now = 1700, ie_rnd = 7\<rparr>"

text \<open>Environments of the image handler in which an attempt ends without a readable
  response: the multipart request fails in the network after the JSON request was rejected
  with status 415 and a text that names multipart; the JSON request is answered with
  status 400 and the read of its body fails.\<close>

definition env_retry_network :: image_env where
  "env_retry_network =
     \<lparr>ie_json = FetchResp 415 ''Unsupported Media Type''
                  (Body ''expected multipart/form-data'' (Inl ''not JSON'')),
      ie_form = FetchError ''socket hang up'',
      ie_download = FetchError ''unused'', ie_write = None, ie_now = 1700, ie_rnd = 7\<rparr>"

definition env_400_unreadable :: image_env where
  "env_400_unreadable =
     \<lparr>ie_json = FetchResp 400 ''Bad Request'' (BodyError ''Premature close''),
      ie_form = FetchError ''unused'', ie_download = FetchError ''unused'',
      ie_write = None, ie_now = 1700, ie_rnd = 7\<rparr>"






section \<open>Invariants of the event loop\<close>


lemma map_get_map_set: "map_get k (map_set k a m) = Some a"
  by (induction m) (auto simp: map_get_def)

lemma set_map_set: "set (map_set k a m) \<subseteq> insert (k, a) (set m)"
  by (induction m) (auto split: if_splits)

lemma map_set_idem [simp]: "map_set k a (map_set k a m) = map_set k a m"
  by (induction m) auto

lemma set_remove_nth: "set (remove_nth i xs) \<subseteq> set xs"
  unfolding remove_nth_def by (auto dest: in_set_takeD in_set_dropD)

lemma wf_set_job: "wf_sys s \<Longrightarrow> a < length (heap s) \<Longrightarrow> wf_sys (set_job k a f s)"
  using set_map_set[of k a "jobs s"] by (fastforce simp: wf_sys_def set_job_def)

lemma no_queued_set_job:
  "no_queued s \<Longrightarrow> (\<And>j. status j \<noteq> Queued \<Longrightarrow> status (f j) \<noteq> Queued) \<Longrightarrow> no_queued (set_job k a f s)"
proof (cases "a < length (heap s)")
  case True
  assume nq: "no_queued s" and f: "\<And>j. status j \<noteq> Queued \<Longrightarrow> status (f j) \<noteq> Queued"
  from True nq have "status (heap s ! a) \<noteq> Queued" by (simp add: no_queued_def)
  then have "status (f (heap s ! a)) \<noteq> Queued" by (rule f)
  with nq show ?thesis
    using set_update_subset_insert[of "heap s" a "f (heap s ! a)"]
    by (auto simp: no_queued_def set_job_def)
next
  case False
  assume "no_queued s"
  with False show ?thesis by (simp add: no_queued_def set_job_def list_update_beyond)
qed

lemma status_fail_job [simp]: "status (fail_job e j) = Failed"
  by (simp add: fail_job_def)

lemma submit_data_status: "status (submit_data pdata env j) \<in> {status j, Succeeded, Failed}"
  by (auto simp: submit_data_def split: sum.splits)

lemma submit_outcome_status: "status (submit_outcome env j) \<in> {status j, Succeeded, Failed}"
  using submit_data_status[of _ "se_save env" j]
  by (auto simp: submit_outcome_def split: fetch_result.splits body.splits sum.splits)

lemma poll_data_status: "poll_data sData env = Some f \<Longrightarrow> status (f j) \<in> {status j, Succeeded, Failed}"
  by (auto simp: poll_data_def split: if_splits sum.splits)

lemma poll_outcome_status: "poll_outcome env = Some f \<Longrightarrow> status (f j) \<in> {status j, Succeeded, Failed}"
  by (auto simp: poll_outcome_def dest: poll_data_status split: fetch_result.splits body.splits sum.splits if_splits)

lemma heap_set_job [simp]: "length (heap (set_job k a f s)) = length (heap s)"
  by (simp add: set_job_def)

lemma subs_set_job [simp]: "subs (set_job k a f s) = subs s"
  by (simp add: set_job_def)

lemma sweeps_set_job [simp]: "sweeps (set_job k a f s) = sweeps s"
  by (simp add: set_job_def)

lemma pollLoop_inv:
  "wf_sys s \<Longrightarrow> no_queued s \<Longrightarrow> \<forall>e \<in> set es. snd e < length (heap s) \<Longrightarrow>
   wf_sys (pollLoop cfg now i es s) \<and> no_queued (pollLoop cfg now i es s)"
proof (induction es arbitrary: s i)
  case Nil
  then show ?case by simp
next
  case (Cons e es)
  obtain k a where e: "e = (k, a)" by (cases e)
  from Cons.prems e have a: "a < length (heap s)" by simp
  have wf_sys': "wf_sys (set_job k a timeout_job s)" using Cons.prems(1) a by (rule wf_set_job)
  have nq': "no_queued (set_job k a timeout_job s)"
    using Cons.prems(2) by (rule no_queued_set_job) (simp add: timeout_job_def)
  have es': "\<forall>e \<in> set es. snd e < length (heap (set_job k a timeout_job s))"
    using Cons.prems(3) by simp
  have susp: "wf_sys (s\<lparr>sweeps := sweeps s @ [\<lparr>sw_index = i, sw_jobId = k, sw_job = a, sw_handle = h\<rparr>]\<rparr>)
      \<and> no_queued (s\<lparr>sweeps := sweeps s @ [\<lparr>sw_index = i, sw_jobId = k, sw_job = a, sw_handle = h\<rparr>]\<rparr>)" for h
    using Cons.prems(1,2) a by (auto simp: wf_sys_def no_queued_def)
  show ?case
    using Cons.IH[OF Cons.prems(1,2), of "Suc i"] Cons.IH[OF wf_sys' nq' es', of "Suc i"] Cons.prems(3) susp
    by (simp add: e)
qed


lemma wf_init: "wf_sys init_sys"
  by (simp add: wf_sys_def init_sys_def)

lemma no_queued_init: "no_queued init_sys"
  by (simp add: no_queued_def init_sys_def)

lemma wf_remove_subs: "wf_sys s \<Longrightarrow> wf_sys (s\<lparr>subs := remove_nth i (subs s)\<rparr>)"
  using set_remove_nth[of i "subs s"] by (auto simp: wf_sys_def)

lemma wf_remove_sweeps: "wf_sys s \<Longrightarrow> wf_sys (s\<lparr>sweeps := remove_nth i (sweeps s)\<rparr>)"
  using set_remove_nth[of i "sweeps s"] by (auto simp: wf_sys_def)

lemma step_inv: "wf_sys s \<Longrightarrow> no_queued s \<Longrightarrow> wf_sys (step cfg s e) \<and> no_queued (step cfg s e)"
proof (cases e)
  case (Submit req jobId now)
  assume w: "wf_sys s" and n: "no_queued s"
  show ?thesis
    using w n set_map_set[of jobId "length (heap s)" "jobs s"]
    by (fastforce simp: Submit generate_video_def Let_def wf_sys_def no_queued_def new_job_def less_Suc_eq
             split: sum.splits)
next
  case (SubmitDone i env)
  assume w: "wf_sys s" and n: "no_queued s"
  show ?thesis
  proof (cases "i < length (subs s)")
    case True
    let ?s1 = "s\<lparr>subs := remove_nth i (subs s)\<rparr>"
    from True w have a: "st_job (subs s ! i) < length (heap ?s1)" by (simp add: wf_sys_def)
    have "wf_sys ?s1" using w by (rule wf_remove_subs)
    then have 1: "wf_sys (set_job (st_jobId (subs s ! i)) (st_job (subs s ! i)) (submit_outcome env) ?s1)"
      using a by (rule wf_set_job)
    have "no_queued ?s1" using n by (simp add: no_queued_def)
    then have 2: "no_queued (set_job (st_jobId (subs s ! i)) (st_job (subs s ! i)) (submit_outcome env) ?s1)"
    proof (rule no_queued_set_job)
      fix j :: job assume "status j \<noteq> Queued"
      with submit_outcome_status[of env j] show "status (submit_outcome env j) \<noteq> Queued" by auto
    qed
    from True 1 2 show ?thesis by (simp add: SubmitDone submit_resume_def Let_def)
  next
    case False
    with w n show ?thesis by (simp add: SubmitDone submit_resume_def)
  qed
next
  case (Tick now)
  assume w: "wf_sys s" and n: "no_queued s"
  then show ?thesis using pollLoop_inv[of s "jobs s" cfg now 0]
    by (simp add: Tick pollWorker_def wf_sys_def)
next
  case (PollDone i now env)
  assume w: "wf_sys s" and n: "no_queued s"
  show ?thesis
  proof (cases "i < length (sweeps s)")
    case True
    let ?w = "sweeps s ! i"
    let ?s1 = "s\<lparr>sweeps := remove_nth i (sweeps s)\<rparr>"
    define s2 where "s2 = (case poll_outcome env of None \<Rightarrow> ?s1
                  | Some f \<Rightarrow> set_job (sw_jobId ?w) (sw_job ?w) f ?s1)"
    from True w have a: "sw_job ?w < length (heap ?s1)" by (simp add: wf_sys_def)
    have w1: "wf_sys ?s1" using w by (rule wf_remove_sweeps)
    have n1: "no_queued ?s1" using n by (simp add: no_queued_def)
    have w2: "wf_sys s2"
      unfolding s2_def using w1 wf_set_job[OF w1 a] by (simp split: option.splits)
    have n2: "no_queued s2"
    proof (cases "poll_outcome env")
      case None
      with n1 show ?thesis by (simp add: s2_def)
    next
      case (Some f)
      have "no_queued (set_job (sw_jobId ?w) (sw_job ?w) f ?s1)"
        using n1
      proof (rule no_queued_set_job)
        fix j :: job assume "status j \<noteq> Queued"
        with poll_outcome_status[OF Some, of j] show "status (f j) \<noteq> Queued" by auto
      qed
      with Some show ?thesis by (simp add: s2_def)
    qed
    have "\<forall>e \<in> set (drop (Suc (sw_index ?w)) (jobs s2)). snd e < length (heap s2)"
      using w2 by (auto simp: wf_sys_def dest: in_set_dropD)
    from pollLoop_inv[OF w2 n2 this] True show ?thesis
      by (simp add: PollDone sweep_resume_def Let_def s2_def)
  next
    case False
    with w n show ?thesis by (simp add: PollDone sweep_resume_def)
  qed
qed

lemma run_snoc: "run cfg (evs @ [e]) = step cfg (run cfg evs) e"
  by (simp add: run_def)

lemma run_inv: "wf_sys (run cfg evs) \<and> no_queued (run cfg evs)"
proof (induction evs rule: rev_induct)
  case Nil
  show ?case using wf_init no_queued_init by (simp add: run_def)
next
  case (snoc e evs)
  then show ?case using step_inv[of "run cfg evs" cfg e] by (simp add: run_snoc)
qed

subsection \<open>What a sweep leaves alone, and how many sweeps are suspended\<close>

lemma map_get_in_set: "map_get k m = Some a \<Longrightarrow> (k, a) \<in> set m"
  by (simp add: map_get_def map_of_SomeD)


lemma sweeps_generate_video: "sweeps (snd (generate_video cfg req jobId now s)) = sweeps s"
  by (simp add: generate_video_def Let_def split: sum.splits)

lemma pollLoop_sweeps: "length (sweeps (pollLoop cfg now i es s)) \<le> Suc (length (sweeps s))"
proof (induction es arbitrary: s i)
  case Nil
  then show ?case by simp
next
  case (Cons e es)
  obtain k a where e: "e = (k, a)" by (cases e)
  show ?case
    using Cons.IH[of "Suc i" s] Cons.IH[of "Suc i" "set_job k a timeout_job s"]
    by (simp add: e)
qed

lemma length_remove_nth: "i < length xs \<Longrightarrow> Suc (length (remove_nth i xs)) = length xs"
  by (simp add: remove_nth_def)

lemma step_sweeps:
  "length (sweeps (step cfg s e)) \<le> length (sweeps s) + (if is_tick e then 1 else 0)"
proof (cases e)
  case (Submit req jobId now)
  then show ?thesis by (simp add: sweeps_generate_video)
next
  case (SubmitDone i env)
  then show ?thesis by (simp add: submit_resume_def Let_def)
next
  case (Tick now)
  then show ?thesis using pollLoop_sweeps[of cfg now 0 "jobs s" s] by (simp add: pollWorker_def)
next
  case (PollDone i now env)
  show ?thesis
  proof (cases "i < length (sweeps s)")
    case True
    let ?s1 = "s\<lparr>sweeps := remove_nth i (sweeps s)\<rparr>"
    define s2 where "s2 = (case poll_outcome env of None \<Rightarrow> ?s1
                  | Some f \<Rightarrow> set_job (sw_jobId (sweeps s ! i)) (sw_job (sweeps s ! i)) f ?s1)"
    have "sweeps s2 = remove_nth i (sweeps s)" by (simp add: s2_def split: option.splits)
    with length_remove_nth[OF True] have "Suc (length (sweeps s2)) = length (sweeps s)" by simp
    with pollLoop_sweeps[of cfg now "Suc (sw_index (sweeps s ! i))"
           "drop (Suc (sw_index (sweeps s ! i))) (jobs s2)" s2] True
    show ?thesis by (simp add: PollDone sweep_resume_def Let_def s2_def)
  next
    case False
    then show ?thesis by (simp add: PollDone sweep_resume_def)
  qed
qed

subsection \<open>The moves of a status\<close>

text \<open>Whatever happens, one piece leaves the status of a job object as it was or makes it
  \<open>succeeded\<close> or \<open>failed\<close>: no piece writes \<open>queued\<close> or \<open>processing\<close> over
  another status.\<close>

lemma pollLoop_status:
  "a < length (heap s) \<Longrightarrow>
   status (heap (pollLoop cfg now i es s) ! a) \<in> {status (heap s ! a), Failed}"
proof (induction es arbitrary: s i)
  case Nil
  then show ?case by simp
next
  case (Cons e es)
  obtain k b where e: "e = (k, b)" by (cases e)
  let ?s1 = "set_job k b timeout_job s"
  have 1: "a < length (heap ?s1)" using Cons.prems by simp
  have 2: "status (heap ?s1 ! a) \<in> {status (heap s ! a), Failed}"
    using Cons.prems by (cases "b = a") (simp_all add: set_job_def timeout_job_def)
  show ?case
    using Cons.IH[OF Cons.prems, of "Suc i"] Cons.IH[OF 1, of "Suc i"] 2
    by (auto simp: e)
qed

lemma set_job_status:
  assumes "a < length (heap s)" and "\<And>j. status (f j) \<in> {status j, Succeeded, Failed}"
  shows "status (heap (set_job k b f s) ! a) \<in> {status (heap s ! a), Succeeded, Failed}"
  using assms(1) assms(2)[of "heap s ! a"] by (cases "b = a") (simp_all add: set_job_def)

lemma step_status:
  assumes "a < length (heap s)"
  shows "status (heap (step cfg s e) ! a) \<in> {status (heap s ! a), Succeeded, Failed}"
proof (cases e)
  case (Submit req jobId now)
  with assms show ?thesis
    by (simp add: generate_video_def Let_def nth_append split: sum.splits)
next
  case (SubmitDone i env)
  show ?thesis
  proof (cases "i < length (subs s)")
    case True
    let ?s1 = "s\<lparr>subs := remove_nth i (subs s)\<rparr>"
    have "a < length (heap ?s1)" using assms by simp
    from set_job_status[OF this, of "submit_outcome env"] submit_outcome_status True
    show ?thesis by (simp add: SubmitDone submit_resume_def Let_def)
  next
    case False
    then show ?thesis by (simp add: SubmitDone submit_resume_def)
  qed
next
  case (Tick now)
  with pollLoop_status[OF assms, of cfg now 0 "jobs s"] show ?thesis
    by (auto simp: pollWorker_def)
next
  case (PollDone i now env)
  show ?thesis
  proof (cases "i < length (sweeps s)")
    case True
    let ?w = "sweeps s ! i"
    let ?s1 = "s\<lparr>sweeps := remove_nth i (sweeps s)\<rparr>"
    define s2 where "s2 = (case poll_outcome env of None \<Rightarrow> ?s1
                  | Some f \<Rightarrow> set_job (sw_jobId ?w) (sw_job ?w) f ?s1)"
    have a1: "a < length (heap ?s1)" using assms by simp
    have h2: "status (heap s2 ! a) \<in> {status (heap s ! a), Succeeded, Failed}"
    proof (cases "poll_outcome env")
      case None
      then show ?thesis by (simp add: s2_def)
    next
      case (Some f)
      from set_job_status[OF a1, of f] poll_outcome_status[OF Some]
      show ?thesis by (simp add: s2_def Some)
    qed
    have a2: "a < length (heap s2)" using assms by (simp add: s2_def split: option.splits)
    from pollLoop_status[OF a2, of cfg now "Suc (sw_index ?w)" "drop (Suc (sw_index ?w)) (jobs s2)"] h2
      True
    show ?thesis by (auto simp: PollDone sweep_resume_def Let_def s2_def)
  next
    case False
    then show ?thesis by (simp add: PollDone sweep_resume_def)
  qed
qed

section \<open>Strings: decimal numerals and markers\<close>









section \<open>The image handler's calls\<close>


lemma form_posts_Nil [simp]: "form_posts [] = 0"
  by (simp add: form_posts_def)

lemma form_posts_Cons [simp]:
  "form_posts (c # cs) = (if is_form_post c then Suc (form_posts cs) else form_posts cs)"
  by (simp add: form_posts_def)

lemma form_posts_append [simp]: "form_posts (a @ b) = form_posts a + form_posts b"
  by (simp add: form_posts_def)

lemma save_not_form: "saveBase64ImageToOut v env = Inr (path, c) \<Longrightarrow> \<not> is_form_post c"
  by (auto simp: saveBase64ImageToOut_def Let_def split: jsval.splits option.splits prod.splits)

lemma form_posts_image_result [simp]: "form_posts (snd (image_result m j env)) = 0"
  by (auto simp: image_result_def form_posts_def Let_def dest: save_not_form
           split: sum.splits prod.splits fetch_result.splits body.splits option.splits)

lemma snd_finish [simp]: "snd (finish pre r) = pre @ snd r"
  by (simp add: finish_def)

lemma str_includes_map: "str_includes s m \<Longrightarrow> str_includes (map f s) (map f m)"
proof (induction s)
  case Nil
  then show ?case by simp
next
  case (Cons c cs)
  show ?case
  proof (cases "take (length m) (c # cs) = m")
    case True
    then have "take (length (map f m)) (map f (c # cs)) = map f m"
      by (metis length_map take_map)
    then show ?thesis by simp
  next
    case False
    with Cons show ?thesis by simp
  qed
qed

lemma markers_lower:
  "toLowerCase ''multipart'' = ''multipart''"
  "toLowerCase ''content-type'' = ''content-type''"
  "toLowerCase ''accept'' = ''accept''"
  "toLowerCase ''prompt: required'' = ''prompt: required''"
  by (simp_all add: toLowerCase_def lower_char_def)

lemma lower_includes:
  assumes "str_includes txt m" and "toLowerCase m = m"
  shows "str_includes (toLowerCase txt) m"
proof -
  from assms(1) have "str_includes (map lower_char txt) (map lower_char m)"
    by (rule str_includes_map)
  with assms(2) show ?thesis by (simp add: toLowerCase_def)
qed

lemma literal_marker:
  assumes "st = 400 \<or> str_includes txt ''multipart'' \<or> str_includes txt ''content-type''
            \<or> str_includes txt ''accept'' \<or> str_includes txt ''prompt: required''"
  shows "retry_markers st txt"
  using assms lower_includes[OF _ markers_lower(1)] lower_includes[OF _ markers_lower(2)]
    lower_includes[OF _ markers_lower(3)] lower_includes[OF _ markers_lower(4)]
  by (auto simp: retry_markers_def)

lemma form_posts_le_1: "form_posts (snd (generate_image apiKey req env)) \<le> 1"
  by (simp add: generate_image_def postJsonToProvider_def postFormToProvider_def
           split: sum.splits prod.splits)

section \<open>Evaluation of the concrete runs\<close>


lemma cfg0_sel: "API_KEY cfg0 = ''key''" "MAX_POLL_MS cfg0 = Some 300000"
  by (simp_all add: cfg0_def)

lemma req0_sel:
  "req_duration req0 = Some 10" "req_width req0 = Some 1920" "req_height req0 = Some 1080"
  by (simp_all add: req0_def)

lemma trimmed_req0: "trimmed_prompt (req_body req0) = Inr ''a red fox''"
  by (simp add: trimmed_prompt_def js_or_def req0_def trim_def is_ws_def)

lemma trimmed_req_short: "trimmed_prompt (req_body req_short) = Inr ''ab''"
  by (simp add: trimmed_prompt_def js_or_def req_short_def trim_def is_ws_def)

lemma handler_req0:
  "generate_video cfg0 req0 ''j1'' 0 init_sys
     = (Resp 200 (JObj [(''jobId'', JStr ''j1''), (''status'', JStr ''queued'')]), sys_submitted)"
  by (simp add: generate_video_def trimmed_req0 cfg0_sel req0_sel init_sys_def new_job_def Let_def
        job1_def sys_submitted_def)

lemma job1_sel:
  "status job1 = Processing" "startedAt job1 = Some 0" "maxPollMs job1 = Some 300000"
  "providerJobId job1 = JNull"
  by (simp_all add: job1_def)

lemma job1_polled_sel:
  "status job1_polled = Processing" "startedAt job1_polled = Some 0"
  "maxPollMs job1_polled = Some 300000" "providerJobId job1_polled = JStr ''abc123''"
  by (simp_all add: job1_polled_def job1_def)

lemma step_submit: "snd (generate_video cfg0 req0 ''j1'' 0 init_sys) = sys_submitted"
  by (simp add: handler_req0)

lemma step_timeout: "pollWorker cfg0 303000 sys_submitted = sys_timed_out"
  by (simp add: pollWorker_def sys_submitted_def sys_timed_out_def job1_sel timed_out_def
        effective_max_def elapsed_def set_job_def timeout_job_def)

lemma video_name: "video_filename 303500 42 = ''video-303500-42.mp4''"
  by (simp add: video_filename_def show_int_def show_nat.simps char_of_def bit_Suc_0_iff)

lemma video_outcome:
  "submit_outcome video_answer j
     = j\<lparr>status := Succeeded, resultUrl := JStr ''/out/video-303500-42.mp4'',
          providerResponse := JObj [(''video_url'', JStr ''https://x/v.mp4'')]\<rparr>"
  by (simp add: submit_outcome_def video_answer_def ok_def submit_data_def
        saveVideoFromBase64OrUrl_def good_save_def local_ref_def video_name js_or_def)

lemma step_overwrite: "submit_resume 0 video_answer sys_timed_out = sys_overwritten"
  by (simp add: submit_resume_def sys_timed_out_def sys_overwritten_def set_job_def remove_nth_def
        video_outcome)

lemma handle_outcome:
  "submit_outcome handle_answer j
     = j\<lparr>providerJobId := JStr ''abc123'', providerResponse := JObj [(''task_id'', JStr ''abc123'')]\<rparr>"
  by (simp add: submit_outcome_def handle_answer_def ok_def submit_data_def provider_handle_def
        js_or_def js_and_def)

lemma step_handle: "submit_resume 0 handle_answer sys_submitted = sys_polled"
  by (simp add: submit_resume_def sys_submitted_def sys_polled_def set_job_def remove_nth_def
        handle_outcome job1_polled_def)

lemma not_timed_out: "\<not> timed_out cfg0 3000 job1_polled" "\<not> timed_out cfg0 6000 job1_polled"
  by (simp_all add: timed_out_def effective_max_def elapsed_def job1_polled_sel)

lemma step_check: "pollWorker cfg0 3000 sys_polled = sys_checking"
  by (simp add: pollWorker_def sys_polled_def sys_checking_def job1_polled_sel not_timed_out
        sweep1_def)

lemma step_check_again: "pollWorker cfg0 6000 sys_checking = sys_checking_twice"
  by (simp add: pollWorker_def sys_checking_def sys_checking_twice_def job1_polled_sel
        not_timed_out sweep1_def)

lemma bare_outcome:
  "poll_outcome bare_success
     = Some (\<lambda>j. j\<lparr>status := Succeeded, resultUrl := JNull,
                     providerResponse := JObj [(''status'', JStr ''succeeded'')]\<rparr>)"
  by (simp add: poll_outcome_def bare_success_def ok_def poll_data_def poll_status_def
        is_success_def poll_b64_def poll_vidUrl_def saveVideoFromBase64OrUrl_def js_or_def js_and_def)

lemma step_bare: "sweep_resume cfg0 3200 0 bare_success sys_checking = sys_bare_success"
  by (simp add: sweep_resume_def sys_checking_def sys_bare_success_def bare_outcome set_job_def
        remove_nth_def sweep1_def)

lemma run_submitted: "run cfg0 [Submit req0 ''j1'' 0] = sys_submitted"
  by (simp add: run_def step_submit)

lemma run_timed_out: "run cfg0 [Submit req0 ''j1'' 0, Tick 303000] = sys_timed_out"
  by (simp add: run_def step_submit step_timeout)

lemma run_overwritten:
  "run cfg0 [Submit req0 ''j1'' 0, Tick 303000, SubmitDone 0 video_answer] = sys_overwritten"
  by (simp add: run_def step_submit step_timeout step_overwrite)

lemma run_checking_twice:
  "run cfg0 [Submit req0 ''j1'' 0, SubmitDone 0 handle_answer, Tick 3000, Tick 6000]
     = sys_checking_twice"
  by (simp add: run_def step_submit step_handle step_check step_check_again)

lemma run_bare_success:
  "run cfg0 [Submit req0 ''j1'' 0, SubmitDone 0 handle_answer, Tick 3000,
             PollDone 0 3200 bare_success] = sys_bare_success"
  by (simp add: run_def step_submit step_handle step_check step_bare)


lemma image_b64_art: "image_b64 art_body = JStr ''QUJD''"
  by (simp add: image_b64_def art_body_def js_or_def js_and_def)

lemma image_url_url: "image_url url_body = JStr ''https://x/y.png''"
  by (simp add: image_url_def url_body_def js_or_def js_and_def)

lemma image_b64_url: "image_b64 url_body = JNull"
  by (simp add: image_b64_def url_body_def js_or_def js_and_def)

lemma poll_art: "poll_b64 art_body = JUndefined" "poll_vidUrl art_body = JUndefined"
  by (simp_all add: poll_b64_def poll_vidUrl_def art_body_def js_or_def js_and_def)

lemma poll_url: "poll_vidUrl url_body = JStr ''https://x/y.png''"
  by (simp add: poll_vidUrl_def url_body_def js_or_def js_and_def)

lemma decode_QUJD: "b64decode ''QUJD'' = ''ABC''"
  by (simp add: b64decode_def b64_value_def char_of_def bit_Suc_0_iff)

lemma image_name: "image_filename env_art ''png'' = ''image-1700-7.png''"
  by (simp add: image_filename_def env_art_def show_int_def show_nat.simps char_of_def bit_Suc_0_iff)

lemma tp_ireq0: "trimmed_prompt (ireq_body ireq0) = Inr ''a red fox''"
  by (simp add: trimmed_prompt_def ireq0_def js_or_def trim_def is_ws_def)

lemma env_art_sel:
  "ie_json env_art = FetchResp 200 ''OK'' (Body ''{\"artifacts\":[{\"base64\":\"QUJD\"}]}'' (Inr art_body))"
  "ie_write env_art = None"
  by (simp_all add: env_art_def)







lemma retry_markers_415: "retry_markers 415 ''expected multipart/form-data''"
  by (simp add: literal_marker)

section \<open>The claims\<close>

subsection \<open>C1: the contract of the submission operation\<close>

text \<open>
  Claim C1. For every call of \<^verbatim>\<open>POST /api/generate-video\<close>: a trimmed prompt (the
  trimmed string of the body's \<open>prompt\<close>, the empty string when there is none) that is
  empty or shorter than 3 characters is rejected with the client error 400, and a request
  that reaches the credential check without a configured credential is rejected with the
  configuration error 500; the checks are made in this order, so without a credential the
  answer is one of the two rejections. Every rejection leaves the state, and with it the
  registry, as it was. On a valid submission the handler answers with the identifier just
  drawn and the status \<open>queued\<close>; that identifier names the new job object in the
  registry, and the request to the provider is still outstanding when the handler answers
  (the detached task is suspended at its \<^verbatim>\<open>fetch\<close>): the answer is computed from the
  request, the identifier and the clock alone.
\<close>

theorem generate_video_contract:
  "(js_get (req_body req) ''prompt'' = JStr raw \<longrightarrow>
      trimmed_prompt (req_body req) = Inr (trim raw))
   \<and> (trimmed_prompt (req_body req) = Inr p \<and> (p = [] \<or> length p < 3) \<longrightarrow>
      generate_video cfg req jobId now s
        = (Resp 400 (JObj [(''error'', JStr ''Prompt too short'')]), s))
   \<and> (trimmed_prompt (req_body req) = Inr p \<and> 3 \<le> length p \<and> API_KEY cfg = [] \<longrightarrow>
      generate_video cfg req jobId now s
        = (Resp 500 (JObj [(''error'', JStr
             ''Server not configured with PROVIDER_API_KEY. Set it in Render environment variables.'')]), s))
   \<and> (API_KEY cfg = [] \<longrightarrow>
        snd (generate_video cfg req jobId now s) = s
        \<and> resp_code (fst (generate_video cfg req jobId now s)) \<in> {400, 500})
   \<and> (trimmed_prompt (req_body req) = Inr p \<and> 3 \<le> length p \<and> API_KEY cfg \<noteq> [] \<longrightarrow>
        fst (generate_video cfg req jobId now s)
          = Resp 200 (JObj [(''jobId'', JStr jobId), (''status'', JStr ''queued'')])
        \<and> map_get jobId (jobs (snd (generate_video cfg req jobId now s))) = Some (length (heap s))
        \<and> length (heap (snd (generate_video cfg req jobId now s))) = Suc (length (heap s))
        \<and> id_job (heap (snd (generate_video cfg req jobId now s)) ! length (heap s)) = jobId
        \<and> subs (snd (generate_video cfg req jobId now s))
            = subs s @ [\<lparr>st_jobId = jobId, st_job = length (heap s)\<rparr>])"
proof -
  have "js_get (req_body req) ''prompt'' = JStr raw \<longrightarrow>
      trimmed_prompt (req_body req) = Inr (trim raw)"
    by (cases "req_body req") (auto simp: trimmed_prompt_def js_or_def trim_def)
  then show ?thesis
    by (auto simp: generate_video_def Let_def map_get_map_set new_job_def split: sum.splits)
qed

theorem generate_video_contract_witness:
  "trimmed_prompt (req_body req_short) = Inr ''ab''
   \<and> generate_video cfg0 req_short ''j1'' 0 init_sys
       = (Resp 400 (JObj [(''error'', JStr ''Prompt too short'')]), init_sys)
   \<and> trimmed_prompt (req_body req0) = Inr ''a red fox'' \<and> API_KEY cfg_nokey = []
   \<and> generate_video cfg_nokey req0 ''j1'' 0 init_sys
       = (Resp 500 (JObj [(''error'', JStr
            ''Server not configured with PROVIDER_API_KEY. Set it in Render environment variables.'')]),
          init_sys)
   \<and> API_KEY cfg0 \<noteq> []
   \<and> fst (generate_video cfg0 req0 ''j1'' 0 init_sys)
       = Resp 200 (JObj [(''jobId'', JStr ''j1''), (''status'', JStr ''queued'')])
   \<and> map_get ''j1'' (jobs (snd (generate_video cfg0 req0 ''j1'' 0 init_sys))) = Some 0
   \<and> subs (snd (generate_video cfg0 req0 ''j1'' 0 init_sys)) = [\<lparr>st_jobId = ''j1'', st_job = 0\<rparr>]"
proof -
  have k: "API_KEY cfg_nokey = []" by (simp add: cfg_nokey_def)
  have k0: "API_KEY cfg0 \<noteq> []" by (simp add: cfg0_sel)
  have e: "heap init_sys = []" "subs init_sys = []" by (simp_all add: init_sys_def)
  have c1: "generate_video cfg0 req_short ''j1'' 0 init_sys
       = (Resp 400 (JObj [(''error'', JStr ''Prompt too short'')]), init_sys)"
    using generate_video_contract[where req = req_short and p = "''ab''" and cfg = cfg0
            and jobId = "''j1''" and now = 0 and s = init_sys and raw = "'' ab ''"]
          trimmed_req_short
    by simp
  have c2: "generate_video cfg_nokey req0 ''j1'' 0 init_sys
       = (Resp 500 (JObj [(''error'', JStr
            ''Server not configured with PROVIDER_API_KEY. Set it in Render environment variables.'')]),
          init_sys)"
    using generate_video_contract[where req = req0 and p = "''a red fox''" and cfg = cfg_nokey
            and jobId = "''j1''" and now = 0 and s = init_sys] trimmed_req0 k
    by simp
  have c3: "fst (generate_video cfg0 req0 ''j1'' 0 init_sys)
       = Resp 200 (JObj [(''jobId'', JStr ''j1''), (''status'', JStr ''queued'')])
     \<and> map_get ''j1'' (jobs (snd (generate_video cfg0 req0 ''j1'' 0 init_sys))) = Some 0
     \<and> subs (snd (generate_video cfg0 req0 ''j1'' 0 init_sys)) = [\<lparr>st_jobId = ''j1'', st_job = 0\<rparr>]"
    using generate_video_contract[where req = req0 and p = "''a red fox''" and cfg = cfg0
            and jobId = "''j1''" and now = 0 and s = init_sys] trimmed_req0 k0 e
    by simp
  from trimmed_req_short trimmed_req0 k k0 c1 c2 c3 show ?thesis by simp
qed

subsection \<open>C2: the status of a job along the lattice\<close>

text \<open>
  Claim C2. The status values written to a job form a monotonic path through
  \<open>queued \<rightarrow> processing \<rightarrow> {succeeded | failed}\<close>: no mutation by the submission task or
  by a sweep switches a job between \<open>failed\<close> and \<open>succeeded\<close>.

  The code does not keep this. The sweep looks at \<open>job.status\<close> only when it visits the
  job (line 67); the detached task and the resumed sweep write the status after their
  awaits without looking at it again. A job is submitted at time 0 and the provider takes
  longer than \<open>MAX_POLL_MS\<close> to answer the submission. The sweep at 303000 ms fails the job
  with the timeout; the provider's answer, a finished video, then makes the detached task
  write \<open>succeeded\<close>. The values of \<open>status\<close> after the three pieces are
  \<open>processing\<close>, \<open>failed\<close>, \<open>succeeded\<close>. (What the code does keep is
  \<open>step_status\<close>: no piece writes \<open>queued\<close> or \<open>processing\<close> over another status.)
\<close>

theorem late_answer_overwrites_timeout:
  "map (\<lambda>evs. status (heap (run cfg0 evs) ! 0))
     [[Submit req0 ''j1'' 0],
      [Submit req0 ''j1'' 0, Tick 303000],
      [Submit req0 ''j1'' 0, Tick 303000, SubmitDone 0 video_answer]]
     = [Processing, Failed, Succeeded]
   \<and> \<not> lattice_move Failed Succeeded"
  by (simp add: run_submitted run_timed_out run_overwritten
        sys_submitted_def sys_timed_out_def sys_overwritten_def job1_sel)

subsection \<open>C3: overlapping sweeps\<close>

text \<open>
  Claim C3, as stated: the poll scheduler is single-flight, so that two status checks for
  the same job are never outstanding at the same time. The timer of line 131 calls
  \<open>pollWorker\<close> every period without awaiting the promise of the previous call, and the
  job object has no in-flight flag. With a status request that takes longer than one
  period, the second tick starts a second check of the same job.
\<close>

theorem overlapping_sweeps_counterexample:
  "\<not> single_flight
       (run cfg0 [Submit req0 ''j1'' 0, SubmitDone 0 handle_answer, Tick 3000, Tick 6000])"
  by (simp add: run_checking_twice single_flight_def sys_checking_twice_def)

text \<open>
  Claim C3, amended. Every timer tick starts a new sweep whether or not earlier sweeps have
  completed: a tick that finds a pollable job first in the registry (in \<open>processing\<close>,
  within its deadline, with a provider handle) adds a status check for it to whatever
  checks are outstanding, for the same job or not. What bounds the outstanding checks is
  that each sweep waits for one status check at a time: there are never more of them than
  timer ticks so far.
\<close>

theorem ticks_start_checks_unguarded:
  "(jobs s = (jobId, a) # es \<and> status (heap s ! a) = Processing
      \<and> \<not> timed_out cfg now (heap s ! a) \<and> truthy (providerJobId (heap s ! a)) \<longrightarrow>
      sweeps (pollWorker cfg now s)
        = sweeps s @ [\<lparr>sw_index = 0, sw_jobId = jobId, sw_job = a,
                        sw_handle = providerJobId (heap s ! a)\<rparr>])
   \<and> length (sweeps (run cfg evs)) \<le> length (filter is_tick evs)"
proof -
  have "length (sweeps (run cfg evs)) \<le> length (filter is_tick evs)"
  proof (induction evs rule: rev_induct)
    case Nil
    show ?case by (simp add: run_def init_sys_def)
  next
    case (snoc e evs)
    then show ?case using step_sweeps[of cfg "run cfg evs" e]
      by (cases "is_tick e") (simp_all add: run_snoc)
  qed
  then show ?thesis by (simp add: pollWorker_def)
qed

theorem ticks_start_checks_unguarded_witness:
  "jobs sys_checking = (''j1'', 0) # [] \<and> status (heap sys_checking ! 0) = Processing
   \<and> \<not> timed_out cfg0 6000 (heap sys_checking ! 0)
   \<and> truthy (providerJobId (heap sys_checking ! 0))
   \<and> sweeps sys_checking = [sweep1]
   \<and> sweeps (pollWorker cfg0 6000 sys_checking) = [sweep1, sweep1]"
proof -
  have h: "jobs sys_checking = (''j1'', 0) # []" "status (heap sys_checking ! 0) = Processing"
    "\<not> timed_out cfg0 6000 (heap sys_checking ! 0)"
    "truthy (providerJobId (heap sys_checking ! 0))"
    "sweeps sys_checking = [sweep1]"
    by (simp_all add: sys_checking_def job1_polled_sel not_timed_out)
  have s: "\<lparr>sw_index = 0, sw_jobId = ''j1'', sw_job = 0,
            sw_handle = providerJobId (heap sys_checking ! 0)\<rparr> = sweep1"
    by (simp add: sys_checking_def job1_polled_sel sweep1_def)
  from ticks_start_checks_unguarded[where s = sys_checking and jobId = "''j1''" and a = 0
         and es = "[]" and cfg = cfg0 and now = 6000 and evs = "[]"] h
  have "sweeps (pollWorker cfg0 6000 sys_checking)
          = sweeps sys_checking @ [\<lparr>sw_index = 0, sw_jobId = ''j1'', sw_job = 0,
                                     sw_handle = providerJobId (heap sys_checking ! 0)\<rparr>]"
    by blast
  with h s show ?thesis by simp
qed

subsection \<open>C4: the timeout law\<close>



subsection \<open>C5: the multipart fallback of the image server\<close>

text \<open>
  Claim C5, as stated: whenever the JSON attempt fails with status 400 or with a marker in
  its body, exactly one multipart retry is made, and if both attempts fail the answer is a
  single composite error with the status and the body text of both attempts. An attempt
  can fail without a readable response: \<^verbatim>\<open>fetch\<close> rejects (network, the 60 s timeout)
  or the read of the body does, and the exception goes to the handler's catch (lines
  195-198). When the multipart retry fails so after a rejected JSON attempt, both attempts
  have failed and the answer is a plain 500 with the message of the second failure alone.
  When the JSON attempt is answered with status 400 and the read of its body fails, no
  retry is made.
\<close>

theorem retry_rejection_counterexample:
  "generate_image ''key'' ireq0 env_retry_network
     = (Resp 500 (JObj [(''error'', JStr ''socket hang up'')]),
        [PostJson (image_payload ''a red fox'' ireq0),
         PostForm (form_fields (image_payload ''a red fox'' ireq0))])
   \<and> generate_image ''key'' ireq0 env_400_unreadable
     = (Resp 500 (JObj [(''error'', JStr ''Premature close'')]),
        [PostJson (image_payload ''a red fox'' ireq0)])"
  by (simp add: generate_image_def tp_ireq0 postJsonToProvider_def postFormToProvider_def
        read_attempt_def env_retry_network_def env_400_unreadable_def ok_def retry_signal_def
        retry_markers_415 caught_def)

text \<open>
  Claim C5, amended. For an image submission whose JSON attempt comes back as a response
  with a readable body and a status that is not ok: if the status is 400 or the body
  contains one of the markers \<open>multipart\<close>, \<open>content-type\<close>, \<open>accept\<close>,
  \<open>prompt: required\<close> (the code looks for them in the lower-cased text, so in any letter
  case), the handler makes exactly one multipart request; if that attempt comes back as a
  readable response that is not ok either, the answer is the single composite error 502
  with the status and the body text of both attempts; if that attempt throws instead, the
  answer is a plain 500 with the message of its exception; without those signals no
  multipart request is made and the answer is the error of the JSON attempt. A JSON
  attempt that throws (\<^verbatim>\<open>fetch\<close> or the read of the body, whatever the status) is
  answered with a plain 500 and no retry. No request ever makes more than one multipart
  attempt.
\<close>

theorem form_fallback_once:
  assumes "trimmed_prompt (ireq_body req) = Inr p" and "3 \<le> length p" and "apiKey \<noteq> []"
      and "ie_json env = FetchResp st stt (Body txt parsed)" and "\<not> ok st"
  shows "(st = 400 \<or> str_includes txt ''multipart'' \<or> str_includes txt ''content-type''
            \<or> str_includes txt ''accept'' \<or> str_includes txt ''prompt: required''
          \<longrightarrow> form_posts (snd (generate_image apiKey req env)) = 1)
     \<and> (retry_markers st txt \<longrightarrow> form_posts (snd (generate_image apiKey req env)) = 1)
     \<and> (retry_markers st txt \<and> ie_form env = FetchResp st2 stt2 (Body txt2 parsed2) \<and> \<not> ok st2
          \<longrightarrow> fst (generate_image apiKey req env)
               = Resp 502 (JObj
                   [(''error'', JStr (''Provider initial error (json '' @ show_int st
                                      @ '') and form-data retry (status '' @ show_int st2 @ '')'')),
                    (''jsonAttempt'', JObj [(''status'', JNum st), (''text'', JStr txt)]),
                    (''formAttempt'', JObj [(''status'', JNum st2), (''text'', JStr txt2)])]))
     \<and> (\<not> retry_markers st txt
          \<longrightarrow> form_posts (snd (generate_image apiKey req env)) = 0
              \<and> fst (generate_image apiKey req env)
                 = Resp 502 (JObj
                     [(''error'', JStr (''Provider initial error: '' @ show_int st @ '' '' @ stt)),
                      (''details'', JStr txt)]))
     \<and> (retry_markers st txt
          \<and> (ie_form env = FetchError msg2 \<or> ie_form env = FetchResp st2 stt2 (BodyError msg2))
          \<longrightarrow> fst (generate_image apiKey req env) = Resp 500 (JObj [(''error'', JStr msg2)]))
     \<and> (ie_json env' = FetchError msg \<or> ie_json env' = FetchResp st' stt' (BodyError msg)
          \<longrightarrow> form_posts (snd (generate_image apiKey req env')) = 0
              \<and> fst (generate_image apiKey req env') = Resp 500 (JObj [(''error'', JStr msg)]))
     \<and> form_posts (snd (generate_image apiKey req env)) \<le> 1"
proof -
  have p: "p \<noteq> []" "\<not> length p < 3" using assms(2) by auto
  have d: "ie_json env' = FetchError msg \<or> ie_json env' = FetchResp st' stt' (BodyError msg)
          \<Longrightarrow> form_posts (snd (generate_image apiKey req env')) = 0
              \<and> fst (generate_image apiKey req env') = Resp 500 (JObj [(''error'', JStr msg)])"
    using assms(1,3) p
    by (auto simp: generate_image_def postJsonToProvider_def read_attempt_def caught_def)
  have e: "retry_markers st txt
          \<and> (ie_form env = FetchError msg2 \<or> ie_form env = FetchResp st2 stt2 (BodyError msg2))
          \<Longrightarrow> fst (generate_image apiKey req env) = Resp 500 (JObj [(''error'', JStr msg2)])"
    using assms p
    by (auto simp: generate_image_def postJsonToProvider_def postFormToProvider_def
          read_attempt_def retry_signal_def caught_def)
  have a: "retry_markers st txt \<Longrightarrow> form_posts (snd (generate_image apiKey req env)) = 1"
    using assms p
    by (simp add: generate_image_def postJsonToProvider_def postFormToProvider_def read_attempt_def
          retry_signal_def split: sum.splits prod.splits fetch_result.splits body.splits)
  have b: "retry_markers st txt \<and> ie_form env = FetchResp st2 stt2 (Body txt2 parsed2) \<and> \<not> ok st2
          \<Longrightarrow> fst (generate_image apiKey req env) = composite_error
               \<lparr>at_ok = False, at_status = st, at_statusText = stt, at_text = txt,
                 at_json = (case parsed of Inl msg \<Rightarrow> JNull | Inr v \<Rightarrow> v)\<rparr>
               \<lparr>at_ok = False, at_status = st2, at_statusText = stt2, at_text = txt2,
                 at_json = (case parsed2 of Inl msg \<Rightarrow> JNull | Inr v \<Rightarrow> v)\<rparr>"
    using assms p
    by (simp add: generate_image_def postJsonToProvider_def postFormToProvider_def read_attempt_def
          retry_signal_def)
  have c: "\<not> retry_markers st txt \<Longrightarrow> form_posts (snd (generate_image apiKey req env)) = 0
              \<and> fst (generate_image apiKey req env)
                 = Resp 502 (JObj
                     [(''error'', JStr (''Provider initial error: '' @ show_int st @ '' '' @ stt)),
                      (''details'', JStr txt)])"
    using assms p
    by (simp add: generate_image_def postJsonToProvider_def read_attempt_def
          retry_signal_def)
  show ?thesis
    using a b c d e literal_marker[of st "txt"] form_posts_le_1[of apiKey req env]
    by (auto simp: composite_error_def)
qed

theorem form_fallback_once_witness:
  "trimmed_prompt (ireq_body ireq0) = Inr ''a red fox''
   \<and> ie_json env_both_fail
       = FetchResp 415 ''Unsupported Media Type'' (Body ''expected multipart/form-data'' (Inl ''not JSON''))
   \<and> \<not> ok 415
   \<and> str_includes ''expected multipart/form-data'' ''multipart''
   \<and> retry_markers 415 ''expected multipart/form-data''
   \<and> ie_form env_both_fail
       = FetchResp 422 ''Unprocessable Entity'' (Body ''bad prompt'' (Inl ''not JSON''))
   \<and> \<not> ok 422
   \<and> form_posts (snd (generate_image ''key'' ireq0 env_both_fail)) = 1
   \<and> fst (generate_image ''key'' ireq0 env_both_fail)
       = Resp 502 (JObj
           [(''error'', JStr (''Provider initial error (json '' @ show_int 415
                              @ '') and form-data retry (status '' @ show_int 422 @ '')'')),
            (''jsonAttempt'', JObj [(''status'', JNum 415), (''text'', JStr ''expected multipart/form-data'')]),
            (''formAttempt'', JObj [(''status'', JNum 422), (''text'', JStr ''bad prompt'')])])
   \<and> ie_json env_unavailable
       = FetchResp 503 ''Service Unavailable'' (Body ''try later'' (Inl ''not JSON''))
   \<and> \<not> ok 503
   \<and> \<not> retry_markers 503 ''try later''
   \<and> form_posts (snd (generate_image ''key'' ireq0 env_unavailable)) = 0
   \<and> fst (generate_image ''key'' ireq0 env_unavailable)
       = Resp 502 (JObj
           [(''error'', JStr (''Provider initial error: '' @ show_int 503 @ '' '' @ ''Service Unavailable'')),
            (''details'', JStr ''try later'')])
   \<and> ie_json env_network = FetchError ''socket hang up''
   \<and> form_posts (snd (generate_image ''key'' ireq0 env_network)) = 0
   \<and> fst (generate_image ''key'' ireq0 env_network)
       = Resp 500 (JObj [(''error'', JStr ''socket hang up'')])
   \<and> ie_json env_retry_network
       = FetchResp 415 ''Unsupported Media Type'' (Body ''expected multipart/form-data'' (Inl ''not JSON''))
   \<and> ie_form env_retry_network = FetchError ''socket hang up''
   \<and> form_posts (snd (generate_image ''key'' ireq0 env_retry_network)) = 1
   \<and> fst (generate_image ''key'' ireq0 env_retry_network)
       = Resp 500 (JObj [(''error'', JStr ''socket hang up'')])"
proof -
  have j4: "ie_json env_retry_network
       = FetchResp 415 ''Unsupported Media Type'' (Body ''expected multipart/form-data'' (Inl ''not JSON''))"
    by (simp add: env_retry_network_def)
  have f4: "ie_form env_retry_network = FetchError ''socket hang up''"
    by (simp add: env_retry_network_def)
  have p: "trimmed_prompt (ireq_body ireq0) = Inr ''a red fox''" by (rule tp_ireq0)
  have j3: "ie_json env_network = FetchError ''socket hang up''" by (simp add: env_network_def)
  have l: "3 \<le> length ''a red fox''" by simp
  have k: "''key'' \<noteq> []" by simp
  have j1: "ie_json env_both_fail
       = FetchResp 415 ''Unsupported Media Type'' (Body ''expected multipart/form-data'' (Inl ''not JSON''))"
    by (simp add: env_both_fail_def)
  have f1: "ie_form env_both_fail
       = FetchResp 422 ''Unprocessable Entity'' (Body ''bad prompt'' (Inl ''not JSON''))"
    by (simp add: env_both_fail_def)
  have j2: "ie_json env_unavailable
       = FetchResp 503 ''Service Unavailable'' (Body ''try later'' (Inl ''not JSON''))"
    by (simp add: env_unavailable_def)
  have o: "\<not> ok 415" "\<not> ok 422" "\<not> ok 503" by (simp_all add: ok_def)
  have i: "str_includes ''expected multipart/form-data'' ''multipart''" by simp
  from i have m1: "retry_markers 415 ''expected multipart/form-data''"
    by (simp add: literal_marker)
  have m2: "\<not> retry_markers 503 ''try later''"
    by (simp add: retry_markers_def toLowerCase_def lower_char_def)
  note a = form_fallback_once[OF p l k j1 o(1), where ?st2.0 = 422
             and ?stt2.0 = "''Unprocessable Entity''" and ?txt2.0 = "''bad prompt''"
             and ?parsed2.0 = "Inl ''not JSON''" and env' = env_network
             and msg = "''socket hang up''"]
  note b = form_fallback_once[OF p l k j2 o(3), where ?st2.0 = 422
             and ?stt2.0 = "''Unprocessable Entity''" and ?txt2.0 = "''bad prompt''"
             and ?parsed2.0 = "Inl ''not JSON''"]
  from a i m1 f1 o(2) have c1: "form_posts (snd (generate_image ''key'' ireq0 env_both_fail)) = 1
   \<and> fst (generate_image ''key'' ireq0 env_both_fail)
       = Resp 502 (JObj
           [(''error'', JStr (''Provider initial error (json '' @ show_int 415
                              @ '') and form-data retry (status '' @ show_int 422 @ '')'')),
            (''jsonAttempt'', JObj [(''status'', JNum 415), (''text'', JStr ''expected multipart/form-data'')]),
            (''formAttempt'', JObj [(''status'', JNum 422), (''text'', JStr ''bad prompt'')])])"
    by blast
  from b m2 have c2: "form_posts (snd (generate_image ''key'' ireq0 env_unavailable)) = 0
   \<and> fst (generate_image ''key'' ireq0 env_unavailable)
       = Resp 502 (JObj
           [(''error'', JStr (''Provider initial error: '' @ show_int 503 @ '' '' @ ''Service Unavailable'')),
            (''details'', JStr ''try later'')])"
    by blast
  from a j3 have c3: "form_posts (snd (generate_image ''key'' ireq0 env_network)) = 0
   \<and> fst (generate_image ''key'' ireq0 env_network)
       = Resp 500 (JObj [(''error'', JStr ''socket hang up'')])"
    by blast
  note r = form_fallback_once[OF p l k j4 o(1), where ?msg2.0 = "''socket hang up''"]
  from r m1 f4 have c4: "form_posts (snd (generate_image ''key'' ireq0 env_retry_network)) = 1
   \<and> fst (generate_image ''key'' ireq0 env_retry_network)
       = Resp 500 (JObj [(''error'', JStr ''socket hang up'')])"
    by blast
  from p j1 f1 j2 j3 j4 f4 o i m1 m2 c1 c2 c3 c4 show ?thesis by blast
qed

subsection \<open>C6: the extraction heuristics\<close>

text \<open>
  Claim C6, as stated: the extraction heuristic, applied to the synchronous submission
  response and to the asynchronous status response alike, yields the decoded bytes
  \<open>ABC\<close> on the body \<^verbatim>\<open>{"artifacts":[{"base64":"QUJD"}]}\<close>. The status response is
  read by \<open>pollWorker\<close> (lines 99-103), which looks under \<open>video_base64\<close>,
  \<open>output[0].base64\<close> and \<open>data[0].base64\<close> and does not know \<open>artifacts\<close>: on this
  body it finds no payload and no URL, and the materializer it calls stores nothing.
\<close>

theorem status_extraction_counterexample:
  "poll_b64 art_body = JUndefined \<and> poll_vidUrl art_body = JUndefined
   \<and> saveVideoFromBase64OrUrl (poll_b64 art_body) (poll_vidUrl art_body) good_save = Inr JNull"
  by (simp add: poll_art saveVideoFromBase64OrUrl_def)

text \<open>
  Claim C6, amended. The two servers read different keys. The extraction of the image
  server's submission response yields \<open>QUJD\<close> on the artifacts body, which the handler
  decodes to the bytes \<open>ABC\<close> and writes to the output file; on
  \<^verbatim>\<open>{"output":[{"url":"https://x/y.png"}]}\<close> it yields that URL; on a body with
  neither a payload nor a URL the handler answers that no image was returned. The
  extraction of the video server's status response yields that URL on the output body; on
  the artifacts body, and on a body of neither shape, it yields nothing.
\<close>

theorem extraction_examples:
  "image_b64 art_body = JStr ''QUJD''
   \<and> generate_image ''key'' ireq0 env_art
       = (Resp 200 (JObj [(''imageUrl'', JStr ''/out/image-1700-7.png''),
                          (''providerResponse'', art_body)]),
          [PostJson (image_payload ''a red fox'' ireq0), WriteFile ''image-1700-7.png'' ''ABC''])
   \<and> image_b64 url_body = JNull \<and> image_url url_body = JStr ''https://x/y.png''
   \<and> (\<not> truthy (image_b64 (js_or json JNull)) \<and> \<not> truthy (image_url (js_or json JNull)) \<longrightarrow>
        image_result msg json env
          = (Inr (Resp 500 (JObj [(''error'', JStr msg), (''payload'', js_or json JNull)])), []))
   \<and> poll_vidUrl url_body = JStr ''https://x/y.png''
   \<and> poll_b64 art_body = JUndefined \<and> poll_vidUrl art_body = JUndefined
   \<and> poll_b64 other_body = JUndefined \<and> poll_vidUrl other_body = JUndefined"
proof -
  have t: "js_or art_body JNull = art_body" by (simp add: js_or_def art_body_def)
  have m: "data_url_match ''QUJD'' = None" by (simp add: data_url_match_def)
  have w: "saveBase64ImageToOut (JStr ''QUJD'') env_art
             = Inr (''/out/image-1700-7.png'', WriteFile ''image-1700-7.png'' ''ABC'')"
    by (simp add: saveBase64ImageToOut_def m env_art_sel image_name decode_QUJD)
  have r: "image_result ''No image returned in provider JSON'' art_body env_art
             = (Inr (image_ok (JStr ''/out/image-1700-7.png'') art_body),
                [WriteFile ''image-1700-7.png'' ''ABC''])"
    by (simp add: image_result_def t image_b64_art w)
  have g: "generate_image ''key'' ireq0 env_art
       = (Resp 200 (JObj [(''imageUrl'', JStr ''/out/image-1700-7.png''),
                          (''providerResponse'', art_body)]),
          [PostJson (image_payload ''a red fox'' ireq0), WriteFile ''image-1700-7.png'' ''ABC''])"
    by (simp add: generate_image_def tp_ireq0 postJsonToProvider_def read_attempt_def env_art_sel
          ok_def finish_def r image_ok_def)
  have n: "\<not> truthy (image_b64 (js_or json JNull)) \<and> \<not> truthy (image_url (js_or json JNull)) \<longrightarrow>
        image_result msg json env
          = (Inr (Resp 500 (JObj [(''error'', JStr msg), (''payload'', js_or json JNull)])), [])"
    by (simp add: image_result_def)
  have o: "poll_b64 other_body = JUndefined" "poll_vidUrl other_body = JUndefined"
    by (simp_all add: poll_b64_def poll_vidUrl_def other_body_def js_or_def js_and_def)
  from image_b64_art g image_b64_url image_url_url n poll_url poll_art o show ?thesis by blast
qed

theorem extraction_examples_witness:
  "\<not> truthy (image_b64 (js_or other_body JNull)) \<and> \<not> truthy (image_url (js_or other_body JNull))
   \<and> image_result ''No image returned in provider JSON'' other_body env_art
       = (Inr (Resp 500 (JObj [(''error'', JStr ''No image returned in provider JSON''),
                               (''payload'', other_body)])), [])"
proof -
  have t: "js_or other_body JNull = other_body" by (simp add: js_or_def other_body_def)
  have h: "\<not> truthy (image_b64 (js_or other_body JNull))"
          "\<not> truthy (image_url (js_or other_body JNull))"
    by (simp_all add: t) (simp_all add: image_b64_def image_url_def other_body_def js_or_def js_and_def)
  from extraction_examples[where json = other_body
         and msg = "''No image returned in provider JSON''" and env = env_art] h
  have "image_result ''No image returned in provider JSON'' other_body env_art
       = (Inr (Resp 500 (JObj [(''error'', JStr ''No image returned in provider JSON''),
                               (''payload'', js_or other_body JNull)])), [])"
    by blast
  with h t show ?thesis by simp
qed

subsection \<open>C7: result and error of a terminal job\<close>

text \<open>
  Claim C7. Once the status of a job is terminal exactly one of its result reference and
  its error is set, and neither is set before.

  The code leaves terminal jobs with neither and with both. A status response that reports
  success and carries no video (\<^verbatim>\<open>{"status":"succeeded"}\<close>) makes the sweep write
  \<open>succeeded\<close> with \<open>resultUrl = null\<close> and no error (lines 105-109). And the late answer
  of the run of C2 leaves the job \<open>succeeded\<close> with a result and with the error
  \<open>Polling timeout\<close> of the sweep that had failed it.
\<close>

theorem result_and_error_broken:
  "status (heap (run cfg0 [Submit req0 ''j1'' 0, SubmitDone 0 handle_answer, Tick 3000,
                           PollDone 0 3200 bare_success]) ! 0) = Succeeded
   \<and> resultUrl (heap (run cfg0 [Submit req0 ''j1'' 0, SubmitDone 0 handle_answer, Tick 3000,
                              PollDone 0 3200 bare_success]) ! 0) = JNull
   \<and> error (heap (run cfg0 [Submit req0 ''j1'' 0, SubmitDone 0 handle_answer, Tick 3000,
                          PollDone 0 3200 bare_success]) ! 0) = JUndefined
   \<and> \<not> result_xor_error
         (heap (run cfg0 [Submit req0 ''j1'' 0, SubmitDone 0 handle_answer, Tick 3000,
                          PollDone 0 3200 bare_success]) ! 0)
   \<and> status (heap (run cfg0 [Submit req0 ''j1'' 0, Tick 303000, SubmitDone 0 video_answer]) ! 0)
       = Succeeded
   \<and> resultUrl (heap (run cfg0 [Submit req0 ''j1'' 0, Tick 303000, SubmitDone 0 video_answer]) ! 0)
       = JStr ''/out/video-303500-42.mp4''
   \<and> error (heap (run cfg0 [Submit req0 ''j1'' 0, Tick 303000, SubmitDone 0 video_answer]) ! 0)
       = JStr ''Polling timeout''
   \<and> \<not> result_xor_error
         (heap (run cfg0 [Submit req0 ''j1'' 0, Tick 303000, SubmitDone 0 video_answer]) ! 0)"
  by (simp add: run_bare_success run_overwritten sys_bare_success_def sys_overwritten_def
        result_xor_error_def terminal_def is_set_def job1_polled_def job1_def)

subsection \<open>C8: a success response without a result\<close>

text \<open>
  Claim C8. A provider response that is recognized as success and in which the extraction
  finds neither a result nor a provider handle fails the job, with the raw payload as its
  error.

  The detached submission task does this (lines 240-243): on the payload
  \<^verbatim>\<open>{"status":"succeeded"}\<close> it fails the job and attaches the payload. The sweep does
  not (lines 97-111): on the same payload as a status response it writes \<open>succeeded\<close>,
  and the status route then reports a succeeded job with \<open>resultUrl = null\<close> and no
  error.
\<close>

theorem success_without_result_not_failed:
  "get_status ''j1'' (run cfg0 [Submit req0 ''j1'' 0, SubmitDone 0 handle_answer, Tick 3000,
                               PollDone 0 3200 bare_success])
     = Resp 200 (JObj [(''id'', JStr ''j1''), (''status'', JStr ''succeeded''),
                       (''prompt'', JStr ''a red fox''), (''resultUrl'', JNull),
                       (''error'', JUndefined), (''providerJobId'', JStr ''abc123''),
                       (''providerResponseSummary'', JNull)])
   \<and> submit_data (JObj [(''status'', JStr ''succeeded'')]) no_save job1
     = job1\<lparr>status := Failed,
            error := JObj [(''note'', JStr ''Unexpected provider response''),
                           (''payload'', JObj [(''status'', JStr ''succeeded'')])]\<rparr>"
  by (simp add: run_bare_success sys_bare_success_def get_status_def map_get_def
        job1_polled_def job1_def js_or_def js_and_def submit_data_def provider_handle_def
        fail_job_def)

subsection \<open>C9: the materializer degrades instead of failing\<close>




subsection \<open>C10: the queued state is never observed\<close>

text \<open>
  Claim C10. When the submission handler has answered \<^verbatim>\<open>{jobId, status: "queued"}\<close>,
  the job in the registry is already in \<open>processing\<close> with \<open>startedAt\<close> set, because the
  detached task runs up to its first await before the handler answers; the status route
  reports \<open>processing\<close> for it. And whatever has happened to the process, the status
  route never reports \<open>queued\<close>, for any identifier.
\<close>

theorem queued_never_observed:
  "(trimmed_prompt (req_body req) = Inr p \<and> 3 \<le> length p \<and> API_KEY cfg \<noteq> [] \<longrightarrow>
      fst (generate_video cfg req jobId now s)
        = Resp 200 (JObj [(''jobId'', JStr jobId), (''status'', JStr ''queued'')])
      \<and> (\<exists>a. map_get jobId (jobs (snd (generate_video cfg req jobId now s))) = Some a
             \<and> status (heap (snd (generate_video cfg req jobId now s)) ! a) = Processing
             \<and> startedAt (heap (snd (generate_video cfg req jobId now s)) ! a) = Some now)
      \<and> js_get (resp_body (get_status jobId (snd (generate_video cfg req jobId now s)))) ''status''
          = JStr ''processing'')
   \<and> js_get (resp_body (get_status j (run cfg evs))) ''status'' \<noteq> JStr ''queued''"
proof -
  have "js_get (resp_body (get_status j (run cfg evs))) ''status'' \<noteq> JStr ''queued''"
  proof (cases "map_get j (jobs (run cfg evs))")
    case None
    then show ?thesis by (simp add: get_status_def)
  next
    case (Some a)
    from run_inv[of cfg evs] map_get_in_set[OF Some]
    have "status (heap (run cfg evs) ! a) \<noteq> Queued"
      by (fastforce simp: wf_sys_def no_queued_def)
    then show ?thesis
      using Some by (cases "status (heap (run cfg evs) ! a)") (simp_all add: get_status_def)
  qed
  then show ?thesis
    by (auto simp: generate_video_def Let_def map_get_map_set new_job_def get_status_def
             split: sum.splits)
qed

theorem queued_never_observed_witness:
  "trimmed_prompt (req_body req0) = Inr ''a red fox'' \<and> 3 \<le> length ''a red fox''
   \<and> API_KEY cfg0 \<noteq> []
   \<and> fst (generate_video cfg0 req0 ''j1'' 0 init_sys)
       = Resp 200 (JObj [(''jobId'', JStr ''j1''), (''status'', JStr ''queued'')])
   \<and> js_get (resp_body (get_status ''j1'' (snd (generate_video cfg0 req0 ''j1'' 0 init_sys)))) ''status''
       = JStr ''processing''
   \<and> js_get (resp_body (get_status ''j1'' (run cfg0 [Submit req0 ''j1'' 0]))) ''status''
       \<noteq> JStr ''queued''"
proof -
  have k: "API_KEY cfg0 \<noteq> []" by (simp add: cfg0_sel)
  have l: "3 \<le> length ''a red fox''" by simp
  from queued_never_observed[where req = req0 and p = "''a red fox''" and cfg = cfg0
         and jobId = "''j1''" and now = 0 and s = init_sys and j = "''j1''"
         and evs = "[Submit req0 ''j1'' 0]"] trimmed_req0 k l
  show ?thesis by blast
qed

end
